theory Spec2Isabelle
  imports Complex_Main "HOL-Library.Word" "HOL-Library.Log_Nat" "HOL-Library.Signed_Division"
begin

section \<open>Go values\<close>

text \<open>
  Go's \<open>int\<close> is a 64-bit two's complement integer on the platforms the program is
  built for: \<open>+\<close> and \<open>-\<close> wrap around, comparisons are signed. Strings are
  byte sequences (\<open>len\<close> counts bytes), here \<open>char list\<close>.
\<close>

type_synonym go_int = "64 word"

text \<open>Decimal digits of a natural number, most significant first, as \<open>%d\<close> prints them.\<close>

function decimal :: "nat \<Rightarrow> string" where
  "decimal n = (if n < 10 then [''0123456789'' ! n]
                else decimal (n div 10) @ [''0123456789'' ! (n mod 10)])"
  by pat_completeness auto
termination
  by (relation "measure id") auto

declare decimal.simps [simp del]

text \<open>\<open>%d\<close> of a signed and of an unsigned 64-bit integer.\<close>

definition fmt_d :: "go_int \<Rightarrow> string" where
  "fmt_d x = (if sint x < 0 then CHR ''-'' # decimal (nat (- sint x)) else decimal (nat (sint x)))"

definition fmt_u :: "64 word \<Rightarrow> string" where
  "fmt_u x = decimal (unat x)"

section \<open>Floating point\<close>

text \<open>
  Go's \<open>float32\<close> and \<open>float64\<close> are the IEEE 754 binary32 and binary64 formats,
  rounding to nearest, ties to even. A value is a finite real (with \<open>Fin 0\<close> the
  positive zero), the negative zero, an infinity or a NaN; an operation computes the
  exact real result and rounds it to the format.
\<close>

datatype gofloat = Fin real | NegZero | PosInf | NegInf | NaN

datatype fbits = B32 | B64

fun prec :: "fbits \<Rightarrow> int" where
  "prec B32 = 24"
| "prec B64 = 53"

fun emin :: "fbits \<Rightarrow> int" where
  "emin B32 = -126"
| "emin B64 = -1022"

fun emax :: "fbits \<Rightarrow> int" where
  "emax B32 = 127"
| "emax B64 = 1023"

definition pow2 :: "int \<Rightarrow> real" where
  "pow2 k = (if 0 \<le> k then 2 ^ nat k else 1 / 2 ^ nat (- k))"

text \<open>The binary exponent \<open>\<lfloor>log\<^sub>2 x\<rfloor>\<close> of a positive real, computed on integers.\<close>

definition ilog2 :: "real \<Rightarrow> int" where
  "ilog2 x = (if 1 \<le> x then bitlen \<lfloor>x\<rfloor> - 1 else - bitlen (\<lceil>1 / x\<rceil> - 1))"

definition round_even :: "real \<Rightarrow> int" where
  "round_even x =
     (let f = \<lfloor>x\<rfloor>; d = x - of_int f
      in if d < 1 / 2 then f else if 1 / 2 < d then f + 1 else if even f then f else f + 1)"

text \<open>
  Rounding a real to the format: the spacing of the format at \<open>x\<close> is
  \<open>2 ^ (e - p + 1)\<close> with \<open>e\<close> the exponent of \<open>x\<close>, not below \<open>emin\<close>
  (subnormal numbers); a result of \<open>2 ^ (emax + 1)\<close> or more overflows to an infinity,
  a result that rounds to nothing keeps the sign on its zero.
\<close>

definition rnd :: "fbits \<Rightarrow> real \<Rightarrow> gofloat" where
  "rnd b x =
     (if x = 0 then Fin 0
      else let a = \<bar>x\<bar>;
               e = max (ilog2 a) (emin b);
               q = pow2 (e - prec b + 1);
               m = round_even (a / q);
               y = of_int m * q
           in if pow2 (emax b + 1) \<le> y then (if x < 0 then NegInf else PosInf)
              else if m = 0 then (if x < 0 then NegZero else Fin 0)
              else Fin (if x < 0 then - y else y))"

text \<open>The finite reals of a format: the multiples of the spacing, below the overflow bound.\<close>

definition representable :: "fbits \<Rightarrow> real \<Rightarrow> bool" where
  "representable b r =
     (r = 0 \<or>
      (let a = \<bar>r\<bar>; q = pow2 (max (ilog2 a) (emin b) - prec b + 1)
       in of_int \<lfloor>a / q\<rfloor> = a / q \<and> a < pow2 (emax b + 1)))"

fun is_float :: "fbits \<Rightarrow> gofloat \<Rightarrow> bool" where
  "is_float b (Fin r) = representable b r"
| "is_float b x = True"

fun sgnbit :: "gofloat \<Rightarrow> bool" where
  "sgnbit (Fin r) = (r < 0)"
| "sgnbit NegZero = True"
| "sgnbit NegInf = True"
| "sgnbit PosInf = False"
| "sgnbit NaN = False"

fun valof :: "gofloat \<Rightarrow> real" where
  "valof (Fin r) = r"
| "valof x = 0"

definition is_nan :: "gofloat \<Rightarrow> bool" where
  "is_nan x = (x = NaN)"

definition is_inf :: "gofloat \<Rightarrow> bool" where
  "is_inf x = (x = PosInf \<or> x = NegInf)"

definition is_zero :: "gofloat \<Rightarrow> bool" where
  "is_zero x = (x = Fin 0 \<or> x = NegZero)"

definition fzero :: "bool \<Rightarrow> gofloat" where
  "fzero s = (if s then NegZero else Fin 0)"

definition finf :: "bool \<Rightarrow> gofloat" where
  "finf s = (if s then NegInf else PosInf)"

fun fneg :: "gofloat \<Rightarrow> gofloat" where
  "fneg (Fin r) = (if r = 0 then NegZero else Fin (- r))"
| "fneg NegZero = Fin 0"
| "fneg PosInf = NegInf"
| "fneg NegInf = PosInf"
| "fneg NaN = NaN"

definition fadd :: "fbits \<Rightarrow> gofloat \<Rightarrow> gofloat \<Rightarrow> gofloat" where
  "fadd b x y =
     (if is_nan x \<or> is_nan y then NaN
      else if is_inf x then (if is_inf y \<and> sgnbit x \<noteq> sgnbit y then NaN else x)
      else if is_inf y then y
      else if is_zero x \<and> is_zero y then fzero (sgnbit x \<and> sgnbit y)
      else rnd b (valof x + valof y))"

definition fsub :: "fbits \<Rightarrow> gofloat \<Rightarrow> gofloat \<Rightarrow> gofloat" where
  "fsub b x y = fadd b x (fneg y)"

definition fmul :: "fbits \<Rightarrow> gofloat \<Rightarrow> gofloat \<Rightarrow> gofloat" where
  "fmul b x y =
     (if is_nan x \<or> is_nan y then NaN
      else if is_inf x \<or> is_inf y
        then (if is_zero x \<or> is_zero y then NaN else finf (sgnbit x \<noteq> sgnbit y))
      else if is_zero x \<or> is_zero y then fzero (sgnbit x \<noteq> sgnbit y)
      else rnd b (valof x * valof y))"

definition fdiv :: "fbits \<Rightarrow> gofloat \<Rightarrow> gofloat \<Rightarrow> gofloat" where
  "fdiv b x y =
     (if is_nan x \<or> is_nan y then NaN
      else if is_inf x then (if is_inf y then NaN else finf (sgnbit x \<noteq> sgnbit y))
      else if is_inf y then fzero (sgnbit x \<noteq> sgnbit y)
      else if is_zero y then (if is_zero x then NaN else finf (sgnbit x \<noteq> sgnbit y))
      else if is_zero x then fzero (sgnbit x \<noteq> sgnbit y)
      else rnd b (valof x / valof y))"

text \<open>The comparisons \<open><\<close> and \<open>==\<close>: false on a NaN, and the two zeros are equal.\<close>

fun flt :: "gofloat \<Rightarrow> gofloat \<Rightarrow> bool" where
  "flt NaN y = False"
| "flt x NaN = False"
| "flt PosInf y = False"
| "flt x NegInf = False"
| "flt NegInf y = True"
| "flt x PosInf = True"
| "flt x y = (valof x < valof y)"

fun feq :: "gofloat \<Rightarrow> gofloat \<Rightarrow> bool" where
  "feq NaN y = False"
| "feq x NaN = False"
| "feq PosInf y = (y = PosInf)"
| "feq NegInf y = (y = NegInf)"
| "feq x PosInf = False"
| "feq x NegInf = False"
| "feq x y = (valof x = valof y)"

text \<open>
  An untyped constant used with a \<open>float32\<close> operand is converted to \<open>float32\<close>; an
  integer converted to \<open>float64\<close> is rounded likewise.
\<close>

definition const32 :: "real \<Rightarrow> gofloat" where
  "const32 r = rnd B32 r"

definition float64_of_int :: "int \<Rightarrow> gofloat" where
  "float64_of_int i = rnd B64 (of_int i)"

text \<open>
  The verbs \<open>%.0f\<close>, \<open>%.1f\<close> and \<open>%.2f\<close> (and \<open>%0.f\<close>, the same as \<open>%.0f\<close>):
  the exact value rounded to the given number of decimals, ties to even; the sign of a
  negative value, also of the negative zero, is printed.
\<close>

definition pad0 :: "nat \<Rightarrow> string \<Rightarrow> string" where
  "pad0 w s = replicate (w - length s) CHR ''0'' @ s"

fun fmt_f :: "nat \<Rightarrow> gofloat \<Rightarrow> string" where
  "fmt_f p NaN = ''NaN''"
| "fmt_f p PosInf = ''+Inf''"
| "fmt_f p NegInf = ''-Inf''"
| "fmt_f p x =
     (let n = nat (round_even (\<bar>valof x\<bar> * 10 ^ p))
      in (if sgnbit x then ''-'' else '''') @ decimal (n div 10 ^ p) @
         (if p = 0 then '''' else CHR ''.'' # pad0 p (decimal (n mod 10 ^ p))))"

section \<open>Data\<close>

text \<open>
  A \<open>time.Time\<close> is an instant, in nanoseconds since the Unix epoch, with the offset
  in seconds of the zone it is shown in (the monotonic clock reading is not modelled). A
  \<open>time.Duration\<close> is a signed 64-bit count of nanoseconds.
\<close>

record Time =
  nanos :: int
  zoneOffset :: int

type_synonym Duration = "64 word"

record LookupResult =
  DisplayName :: string
  Name :: string

text \<open>The struct \<open>CarState\<close>; its field \<open>at\<close> is \<open>at'\<close> here (\<open>at\<close> is a constant of HOL).\<close>

record CarState =
  at' :: Time
  geofence :: string
  chargerPower :: go_int
  chargerVoltage :: go_int
  timeToFullCharge :: gofloat
  chargerActualCurrent :: go_int
  chargeEnergyAdded :: gofloat
  estBatteryRangeKm :: gofloat
  ratedBatteryRangeKm :: gofloat
  idealBatteryRangeKm :: gofloat
  batteryLevel :: go_int
  shiftState :: string
  odometer :: gofloat
  outsideTemp :: gofloat
  insideTemp :: gofloat
  pluggedIn :: bool
  latitude :: gofloat
  longitude :: gofloat

text \<open>
  The struct \<open>Car\<close>. Its timer \<open>update\<close>, which delays the evaluation of a burst of
  updates, is not a field of the model: when a car is evaluated is an input.
\<close>

record Car =
  displayName :: string
  state :: string
  carState :: CarState
  charging :: bool
  chargeStart :: CarState
  chargePeak :: CarState
  driving :: bool
  driveStart :: CarState

text \<open>The variables of \<open>main\<close> that the handlers share: the cars by identifier and the default car.\<close>

record Main =
  cars :: "go_int \<rightharpoonup> Car"
  defaultCar :: go_int

text \<open>What an evaluation writes to the log and sends to the chat.\<close>

datatype out_event =
    LogStateUpdate CarState
  | LogFinishedCharging CarState
  | LogNewChargingPeak CarState
  | LogStartedCharging CarState
  | LogStartedDriving CarState
  | LogFinishedDriving CarState
  | Send string

text \<open>The zero values; the zero \<open>time.Time\<close> is 1 January of year 1, UTC.\<close>

definition zeroTime :: Time where
  "zeroTime = \<lparr>nanos = - 62135596800000000000, zoneOffset = 0\<rparr>"

definition zeroCarState :: CarState where
  "zeroCarState =
     \<lparr>at' = zeroTime, geofence = '''', chargerPower = 0, chargerVoltage = 0,
      timeToFullCharge = Fin 0, chargerActualCurrent = 0, chargeEnergyAdded = Fin 0,
      estBatteryRangeKm = Fin 0, ratedBatteryRangeKm = Fin 0, idealBatteryRangeKm = Fin 0,
      batteryLevel = 0, shiftState = '''', odometer = Fin 0, outsideTemp = Fin 0,
      insideTemp = Fin 0, pluggedIn = False, latitude = Fin 0, longitude = Fin 0\<rparr>"

definition zeroCar :: Car where
  "zeroCar =
     \<lparr>displayName = '''', state = '''', carState = zeroCarState, charging = False,
      chargeStart = zeroCarState, chargePeak = zeroCarState, driving = False,
      driveStart = zeroCarState\<rparr>"

section \<open>Time\<close>

definition Minute :: Duration where
  "Minute = 60000000000"

definition Hour :: Duration where
  "Hour = 3600000000000"

definition minDuration :: Duration where
  "minDuration = word_of_int (- (2 ^ 63))"

definition maxDuration :: Duration where
  "maxDuration = word_of_int (2 ^ 63 - 1)"

text \<open>\<open>t.Sub(u)\<close>: the difference, saturated at the ends of the range of a Duration.\<close>

definition Sub :: "Time \<Rightarrow> Time \<Rightarrow> Duration" where
  "Sub t u =
     (let d = nanos t - nanos u
      in if 2 ^ 63 - 1 < d then maxDuration
         else if d < - (2 ^ 63) then minDuration
         else word_of_int d)"

text \<open>Go's \<open>/\<close> and \<open>%\<close> on signed integers truncate towards zero.\<close>

definition go_quo :: "64 word \<Rightarrow> 64 word \<Rightarrow> 64 word" where
  "go_quo a b = word_of_int (sint a sdiv sint b)"

definition go_rem :: "64 word \<Rightarrow> 64 word \<Rightarrow> 64 word" where
  "go_rem a b = word_of_int (sint a smod sint b)"

text \<open>\<open>lessThanHalf\<close> compares in \<open>uint64\<close>: the order of words is the unsigned one.\<close>

definition lessThanHalf :: "Duration \<Rightarrow> Duration \<Rightarrow> bool" where
  "lessThanHalf x y = (x + x < y)"

text \<open>\<open>d.Round(m)\<close>: the nearest multiple of \<open>m\<close>, halfway values away from zero.\<close>

definition Round :: "Duration \<Rightarrow> Duration \<Rightarrow> Duration" where
  "Round d m =
     (if sint m \<le> 0 then d
      else let r = go_rem d m
           in if sint d < 0
              then (let r = - r
                    in if lessThanHalf r m then d + r
                       else let d1 = d - m + r
                            in if sint d1 < sint d then d1 else minDuration)
              else (if lessThanHalf r m then d - r
                    else let d1 = d + m - r
                         in if sint d < sint d1 then d1 else maxDuration))"

text \<open>\<open>d.Hours()\<close>, in \<open>float64\<close>.\<close>

definition Hours :: "Duration \<Rightarrow> gofloat" where
  "Hours d =
     (let hour = go_quo d Hour; nsec = go_rem d Hour
      in fadd B64 (float64_of_int (sint hour))
           (fdiv B64 (float64_of_int (sint nsec)) (Fin 3600000000000)))"

text \<open>\<open>t.Format("15:04")\<close>: hour and minute of the day in the zone of \<open>t\<close>.\<close>

definition pad2 :: "nat \<Rightarrow> string" where
  "pad2 n = pad0 2 (decimal n)"

definition Format1504 :: "Time \<Rightarrow> string" where
  "Format1504 t =
     (let s = (nanos t div 1000000000 + zoneOffset t) mod 86400
      in pad2 (nat (s div 3600)) @ CHR '':'' # pad2 (nat (s mod 3600 div 60)))"

text \<open>
  \<open>formatDuration\<close>: the conversion to \<open>uint64\<close> keeps the bits, and the division and
  the comparison that follow are unsigned, as they are on words.
\<close>

definition formatDuration :: "Duration \<Rightarrow> string" where
  "formatDuration d =
     (let u = Round d Minute div Minute
      in if u < 60 then fmt_u u @ ''m''
         else fmt_u (u div 60) @ ''h'' @ fmt_u (u mod 60) @ ''m'')"

section \<open>Place names\<close>

text \<open>
  \<open>strings.LastIndex(s, ",")\<close> for the one-byte separator the program searches: the
  index of the last occurrence, or -1 when there is none.
\<close>

fun LastIndex :: "string \<Rightarrow> char \<Rightarrow> int" where
  "LastIndex [] c = -1"
| "LastIndex (x # xs) c =
     (let r = LastIndex xs c in if r \<noteq> -1 then r + 1 else if x = c then 0 else -1)"

text \<open>
  \<open>truncate(s, limit)\<close>. The slice \<open>s[:limit]\<close> is \<open>take limit s\<close>; the only
  caller passes the constant 20, so the limit is a natural number here (a negative limit
  would be a slice-bounds panic in Go and is not in the domain of the model).
\<close>

definition truncate :: "string \<Rightarrow> nat \<Rightarrow> string" where
  "truncate s limit =
     (if length s < limit then s
      else let l = LastIndex (take limit s) CHR '',''
           in take (if l \<noteq> -1 then nat l else limit) s)"

text \<open>
  \<open>nominatimLookup\<close> asks a web service; its answer to a pair of coordinates is a
  parameter of the model: \<open>None\<close> for an error, the decoded result otherwise.
\<close>

type_synonym lookup = "gofloat \<Rightarrow> gofloat \<Rightarrow> LookupResult option"

definition placeName :: "lookup \<Rightarrow> CarState \<Rightarrow> string" where
  "placeName nominatimLookup s =
     (if geofence s \<noteq> '''' then geofence s
      else case nominatimLookup (latitude s) (longitude s) of
             None \<Rightarrow> ''?''
           | Some result \<Rightarrow>
               (let name = Name result;
                    name = (if name = '''' then DisplayName result else name)
                in if name \<noteq> '''' then truncate name 20 else ''?''))"

section \<open>Field updates\<close>

text \<open>
  \<open>strconv.Atoi\<close>: an optional sign and one or more decimal digits, an error
  (\<open>None\<close>) on anything else and on a value outside the 64-bit range.
\<close>

definition is_digit :: "char \<Rightarrow> bool" where
  "is_digit c = (c \<in> set ''0123456789'')"

definition digit_val :: "char \<Rightarrow> int" where
  "digit_val c = int (of_char c) - 48"

definition dec_val :: "string \<Rightarrow> int" where
  "dec_val ds = foldl (\<lambda>n c. 10 * n + digit_val c) 0 ds"

definition Atoi :: "string \<Rightarrow> go_int option" where
  "Atoi s =
     (let neg = (s \<noteq> [] \<and> hd s = CHR ''-'');
          ds = (if s \<noteq> [] \<and> (hd s = CHR ''-'' \<or> hd s = CHR ''+'') then tl s else s)
      in if ds = [] \<or> \<not> list_all is_digit ds then None
         else let v = (if neg then - dec_val ds else dec_val ds)
              in if - (2 ^ 63) \<le> v \<and> v < 2 ^ 63 then Some (word_of_int v) else None)"

text \<open>
  \<open>Update\<close>. The clock and \<open>strconv.ParseFloat(value, 32)\<close> followed by the
  conversion to \<open>float32\<close> are parameters: \<open>now\<close> is what \<open>time.Now()\<close> returns
  in the call, \<open>ParseFloat32 value\<close> is \<open>None\<close> when the parser returns an error.
\<close>

definition Update :: "(string \<Rightarrow> gofloat option) \<Rightarrow> Time \<Rightarrow> string \<Rightarrow> string \<Rightarrow> Car \<Rightarrow> Car" where
  "Update ParseFloat32 now key val car0 =
     (let car = car0\<lparr>carState := (carState car0)\<lparr>at' := now\<rparr>\<rparr>
      in if key = ''display_name'' then car\<lparr>displayName := val\<rparr>
         else if key = ''state'' then car\<lparr>state := val\<rparr>
         else if key = ''shift_state'' then car\<lparr>carState := (carState car)\<lparr>shiftState := val\<rparr>\<rparr>
         else if key = ''geofence'' then car\<lparr>carState := (carState car)\<lparr>geofence := val\<rparr>\<rparr>
         else if key = ''charger_power'' then
           (case Atoi val of
              Some ivalue \<Rightarrow> car\<lparr>carState := (carState car)\<lparr>chargerPower := ivalue\<rparr>\<rparr>
            | None \<Rightarrow> car)
         else if key = ''charger_voltage'' then
           (case Atoi val of
              Some ivalue \<Rightarrow> car\<lparr>carState := (carState car)\<lparr>chargerVoltage := ivalue\<rparr>\<rparr>
            | None \<Rightarrow> car)
         else if key = ''time_to_full_charge'' then
           (case ParseFloat32 val of
              Some fvalue \<Rightarrow> car\<lparr>carState := (carState car)\<lparr>timeToFullCharge := fvalue\<rparr>\<rparr>
            | None \<Rightarrow> car)
         else if key = ''charger_actual_current'' then
           (case Atoi val of
              Some ivalue \<Rightarrow> car\<lparr>carState := (carState car)\<lparr>chargerActualCurrent := ivalue\<rparr>\<rparr>
            | None \<Rightarrow> car)
         else if key = ''charge_energy_added'' then
           (case ParseFloat32 val of
              Some fvalue \<Rightarrow> car\<lparr>carState := (carState car)\<lparr>chargeEnergyAdded := fvalue\<rparr>\<rparr>
            | None \<Rightarrow> car)
         else if key = ''est_battery_range_km'' then
           (case ParseFloat32 val of
              Some fvalue \<Rightarrow> car\<lparr>carState := (carState car)\<lparr>estBatteryRangeKm := fvalue\<rparr>\<rparr>
            | None \<Rightarrow> car)
         else if key = ''ideal_battery_range_km'' then
           (case ParseFloat32 val of
              Some fvalue \<Rightarrow> car\<lparr>carState := (carState car)\<lparr>idealBatteryRangeKm := fvalue\<rparr>\<rparr>
            | None \<Rightarrow> car)
         else if key = ''rated_battery_range_km'' then
           (case ParseFloat32 val of
              Some fvalue \<Rightarrow> car\<lparr>carState := (carState car)\<lparr>ratedBatteryRangeKm := fvalue\<rparr>\<rparr>
            | None \<Rightarrow> car)
         else if key = ''battery_level'' then
           (case Atoi val of
              Some ivalue \<Rightarrow> car\<lparr>carState := (carState car)\<lparr>batteryLevel := ivalue\<rparr>\<rparr>
            | None \<Rightarrow> car)
         else if key = ''odometer'' then
           (case ParseFloat32 val of
              Some fvalue \<Rightarrow> car\<lparr>carState := (carState car)\<lparr>odometer := fvalue\<rparr>\<rparr>
            | None \<Rightarrow> car)
         else if key = ''outside_temp'' then
           (case ParseFloat32 val of
              Some fvalue \<Rightarrow> car\<lparr>carState := (carState car)\<lparr>outsideTemp := fvalue\<rparr>\<rparr>
            | None \<Rightarrow> car)
         else if key = ''inside_temp'' then
           (case ParseFloat32 val of
              Some fvalue \<Rightarrow> car\<lparr>carState := (carState car)\<lparr>insideTemp := fvalue\<rparr>\<rparr>
            | None \<Rightarrow> car)
         else if key = ''plugged_in'' then
           car\<lparr>carState := (carState car)\<lparr>pluggedIn := (val = ''true'')\<rparr>\<rparr>
         else if key = ''latitude'' then
           (case ParseFloat32 val of
              Some fvalue \<Rightarrow> car\<lparr>carState := (carState car)\<lparr>latitude := fvalue\<rparr>\<rparr>
            | None \<Rightarrow> car)
         else if key = ''longitude'' then
           (case ParseFloat32 val of
              Some fvalue \<Rightarrow> car\<lparr>carState := (carState car)\<lparr>longitude := fvalue\<rparr>\<rparr>
            | None \<Rightarrow> car)
         else car)"

section \<open>Messages\<close>

definition driveShiftState :: "string \<Rightarrow> bool" where
  "driveShiftState s = (s = ''D'' \<or> s = ''R'')"

text \<open>The constants \<open>RatedKMPerKwh\<close> and \<open>KMPerMile\<close>, untyped in the source.\<close>

definition RatedKMPerKwh :: real where
  "RatedKMPerKwh = 7.47"

definition KMPerMile :: real where
  "KMPerMile = 1.61"

definition efficiency :: "CarState \<Rightarrow> CarState \<Rightarrow> gofloat" where
  "efficiency start end =
     (let kwh = fdiv B32 (fsub B32 (ratedBatteryRangeKm start) (ratedBatteryRangeKm end))
                  (const32 RatedKMPerKwh)
      in fmul B32
           (fdiv B32 (fmul B32 kwh (const32 1000)) (fsub B32 (odometer end) (odometer start)))
           (const32 KMPerMile))"

text \<open>The glyphs of the format strings, byte for byte as the source file has them.\<close>

definition glyph_plug :: string where
  "glyph_plug = [CHR 0xC3, CHR 0xB0, CHR 0xC5, CHR 0xB8, CHR 0xE2, CHR 0x80, CHR 0x9D, CHR 0xC5, CHR 0x92]"

definition glyph_clock :: string where
  "glyph_clock = [CHR 0xC3, CHR 0xB0, CHR 0xC5, CHR 0xB8, CHR 0xE2, CHR 0x80, CHR 0xA2, CHR 0xE2, CHR 0x80, CHR 0x94]"

definition glyph_arrow :: string where
  "glyph_arrow = [CHR 0xC3, CHR 0xA2, CHR 0xE2, CHR 0x80, CHR 0xA0, CHR 0xE2, CHR 0x80, CHR 0x99]"

definition glyph_battery :: string where
  "glyph_battery = [CHR 0xC3, CHR 0xB0, CHR 0xC5, CHR 0xB8, CHR 0xE2, CHR 0x80, CHR 0x9D, CHR 0xE2, CHR 0x80, CHR 0xB9]"

definition glyph_car :: string where
  "glyph_car = [CHR 0xC3, CHR 0xB0, CHR 0xC5, CHR 0xB8, CHR 0xC5, CHR 0xA1, CHR 0xE2, CHR 0x80, CHR 0x94]"

definition glyph_bolt :: string where
  "glyph_bolt = [CHR 0xC3, CHR 0xA2, CHR 0xC5, CHR 0xA1, CHR 0xC2, CHR 0xA1]"

definition glyph_thermometer :: string where
  "glyph_thermometer = [CHR 0xC3, CHR 0xB0, CHR 0xC5, CHR 0xB8, CHR 0xC5, CHR 0x92, CHR 0xC2, CHR 0xA1]"

definition glyph_degree :: string where
  "glyph_degree = [CHR 0xC3, CHR 0x82, CHR 0xC2, CHR 0xB0]"

definition glyph_oncoming :: string where
  "glyph_oncoming = [CHR 0xC3, CHR 0xB0, CHR 0xC5, CHR 0xB8, CHR 0xC5, CHR 0xA1, CHR 0xCB, CHR 0x9C]"

definition newline :: string where
  "newline = [CHR 0x0A]"

definition finishChargingMessage :: "lookup \<Rightarrow> CarState \<Rightarrow> CarState \<Rightarrow> CarState \<Rightarrow> string" where
  "finishChargingMessage nominatimLookup start end peak =
     (let battery = batteryLevel end - batteryLevel start
      in if battery = 0 then ''''
         else
           let duration = Sub (at' end) (at' start);
               averagePower = fdiv B64 (fsub B32 (chargeEnergyAdded end) (chargeEnergyAdded start))
                                (Hours duration);
               milesAdded = fdiv B32 (fsub B32 (ratedBatteryRangeKm end) (ratedBatteryRangeKm start))
                              (const32 KMPerMile)
           in glyph_plug @ '' Charging finished at '' @ placeName nominatimLookup start @ ''.'' @ newline @
              glyph_clock @ '' '' @ Format1504 (at' start) @ glyph_arrow @ Format1504 (at' end) @
                '' ('' @ formatDuration duration @ '')'' @ newline @
              glyph_battery @ '' '' @ fmt_d (batteryLevel start) @ glyph_arrow @
                fmt_d (batteryLevel end) @ ''% (+ '' @ fmt_d battery @ ''%)'' @ newline @
              glyph_car @ '' '' @ fmt_f 0 (fdiv B32 (ratedBatteryRangeKm start) (const32 KMPerMile)) @
                glyph_arrow @ fmt_f 0 (fdiv B32 (ratedBatteryRangeKm end) (const32 KMPerMile)) @
                '' miles (+ '' @ fmt_f 1 milesAdded @ '' miles).'' @ newline @
              glyph_bolt @ '' + '' @ fmt_f 1 (chargeEnergyAdded end) @ ''kWh'' @ newline @
              ''Average Power: '' @ fmt_f 2 averagePower @ ''kW (Peak '' @
                fmt_d (chargerPower peak) @ ''kW at '' @ fmt_d (batteryLevel peak) @ ''%)'')"

definition finishDriveMessage :: "lookup \<Rightarrow> CarState \<Rightarrow> CarState \<Rightarrow> string" where
  "finishDriveMessage nominatimLookup start end =
     (let distance = fdiv B32 (fsub B32 (odometer end) (odometer start)) (const32 KMPerMile)
      in if flt distance (const32 0.1) then ''''
         else
           let battery = batteryLevel end - batteryLevel start;
               eff = efficiency start end;
               duration = Sub (at' end) (at' start);
               miles = fdiv B32 (fsub B32 (ratedBatteryRangeKm start) (ratedBatteryRangeKm end))
                         (const32 KMPerMile)
           in glyph_car @ '' '' @ placeName nominatimLookup start @ ''->'' @
                placeName nominatimLookup end @ '' <code>'' @ fmt_f 1 distance @ ''</code> miles '' @
                glyph_thermometer @ '' '' @ fmt_f 1 (outsideTemp start) @ glyph_degree @ ''C'' @ newline @
              glyph_clock @ '' '' @ Format1504 (at' start) @ glyph_arrow @ Format1504 (at' end) @
                '' ('' @ formatDuration duration @ '')'' @ newline @
              glyph_battery @ '' '' @ fmt_d (batteryLevel start) @ glyph_arrow @
                fmt_d (batteryLevel end) @ ''% ('' @ fmt_d battery @ ''%)'' @ newline @
              glyph_oncoming @ '' '' @
                fmt_f 0 (fdiv B32 (ratedBatteryRangeKm start) (const32 KMPerMile)) @ glyph_arrow @
                fmt_f 0 (fdiv B32 (ratedBatteryRangeKm end) (const32 KMPerMile)) @
                '' miles ('' @ fmt_f 1 miles @ '' miles @ '' @ fmt_f 0 eff @ ''Wh/mi)'')"

definition statusMessage :: "Car \<Rightarrow> string" where
  "statusMessage car = glyph_battery @ fmt_d (batteryLevel (carState car)) @ ''%''"

section \<open>The main loop\<close>

text \<open>
  The case \<open>car := <-carUpdates\<close> of the loop of \<open>main\<close>, for one car: first the
  charging part, then the driving part. The third component of \<open>chargingPart\<close> tells
  that the \<open>break\<close> after an empty charging message was taken, which leaves the
  \<open>select\<close> statement before the driving part.
\<close>

definition chargingPart :: "lookup \<Rightarrow> Car \<Rightarrow> Car \<times> out_event list \<times> bool" where
  "chargingPart nominatimLookup car =
     (if charging car \<and> chargerPower (carState car) = 0 then
        (let car1 = car\<lparr>charging := False\<rparr>;
             text = finishChargingMessage nominatimLookup (chargeStart car1) (carState car1)
                      (chargePeak car1)
         in if text = '''' then (car1, [LogFinishedCharging (carState car)], True)
            else (car1, [LogFinishedCharging (carState car), Send text], False))
      else if charging car \<and> sint (chargerPower (chargePeak car)) < sint (chargerPower (carState car)) then
        (car\<lparr>chargePeak := carState car\<rparr>, [LogNewChargingPeak (carState car)], False)
      else if \<not> charging car \<and> 0 < sint (chargerPower (carState car)) then
        (car\<lparr>charging := True, chargeStart := carState car, chargePeak := carState car\<rparr>,
         [LogStartedCharging (carState car)], False)
      else (car, [], False))"

definition drivingPart :: "lookup \<Rightarrow> Car \<Rightarrow> Car \<times> out_event list" where
  "drivingPart nominatimLookup car =
     (if driveShiftState (shiftState (carState car)) \<and> \<not> driving car then
        (car\<lparr>driving := True, driveStart := carState car\<rparr>, [LogStartedDriving (carState car)])
      else if \<not> driveShiftState (shiftState (carState car)) \<and> driving car then
        (let car1 = car\<lparr>driving := False\<rparr>;
             text = finishDriveMessage nominatimLookup (driveStart car1) (carState car1)
         in if text = '''' then (car1, [LogFinishedDriving (carState car)])
            else (car1, [LogFinishedDriving (carState car), Send text]))
      else (car, []))"

definition evaluate :: "lookup \<Rightarrow> Car \<Rightarrow> Car \<times> out_event list" where
  "evaluate nominatimLookup car =
     (case chargingPart nominatimLookup car of
        (car1, out1, break) \<Rightarrow>
          if break then (car1, LogStateUpdate (carState car) # out1)
          else (case drivingPart nominatimLookup car1 of
                  (car2, out2) \<Rightarrow> (car2, LogStateUpdate (carState car) # out1 @ out2)))"

text \<open>
  \<open>carHandler\<close>. The topic as \<open>fmt.Sscanf\<close> reads it is an input: \<open>None\<close> when
  the topic does not parse, the car identifier and the key otherwise.
\<close>

definition carHandler ::
  "(string \<Rightarrow> gofloat option) \<Rightarrow> Time \<Rightarrow> (go_int \<times> string) option \<Rightarrow> string \<Rightarrow> Main \<Rightarrow> Main" where
  "carHandler ParseFloat32 now topic payload m =
     (case topic of
        None \<Rightarrow> m
      | Some (carId, key) \<Rightarrow>
          (let m1 = (case cars m carId of
                       None \<Rightarrow> m\<lparr>cars := (cars m)(carId \<mapsto> zeroCar), defaultCar := carId\<rparr>
                     | Some car \<Rightarrow> m)
           in case cars m1 carId of
                None \<Rightarrow> m1
              | Some car \<Rightarrow> m1\<lparr>cars := (cars m1)(carId \<mapsto> Update ParseFloat32 now key payload car)\<rparr>))"

text \<open>
  The command \<open>status\<close>: the message for \<open>cars[defaultCar]\<close>; without such a car the
  map gives a nil pointer, and reading through it panics (\<open>None\<close>).
\<close>

definition statusCommand :: "Main \<Rightarrow> string option" where
  "statusCommand m = (case cars m (defaultCar m) of None \<Rightarrow> None | Some car \<Rightarrow> Some (statusMessage car))"

definition initMain :: Main where
  "initMain = \<lparr>cars = Map.empty, defaultCar = 0\<rparr>"

section \<open>Runs\<close>

text \<open>
  The messages of the feed, each with the time of its arrival, its topic as parsed and
  its payload, handled in their order of arrival.
\<close>

type_synonym message = "Time \<times> (go_int \<times> string) option \<times> string"

fun handleAll :: "(string \<Rightarrow> gofloat option) \<Rightarrow> message list \<Rightarrow> Main \<Rightarrow> Main" where
  "handleAll ParseFloat32 [] m = m"
| "handleAll ParseFloat32 ((now, topic, payload) # ms) m =
     handleAll ParseFloat32 ms (carHandler ParseFloat32 now topic payload m)"

text \<open>
  The car identifiers a list of messages makes known, in the order of their discovery:
  those of the topics that parse, each at its first appearance, given the identifiers
  known before.
\<close>

fun discoveries :: "go_int list \<Rightarrow> message list \<Rightarrow> go_int list" where
  "discoveries known [] = []"
| "discoveries known ((now, None, payload) # ms) = discoveries known ms"
| "discoveries known ((now, Some (carId, key), payload) # ms) =
     (if carId \<in> set known then discoveries known ms
      else carId # discoveries (carId # known) ms)"

text \<open>
  The evaluations of one car, given the snapshots it has at each of them (the field
  updates between two evaluations make the next snapshot out of the last).
\<close>

fun evaluateAll :: "lookup \<Rightarrow> Car \<Rightarrow> CarState list \<Rightarrow> Car" where
  "evaluateAll nominatimLookup car [] = car"
| "evaluateAll nominatimLookup car (s # ss) =
     evaluateAll nominatimLookup (fst (evaluate nominatimLookup (car\<lparr>carState := s\<rparr>))) ss"

text \<open>The lines of the log that tell a case of the charging part, and those of the driving part.\<close>

fun chargingLine :: "out_event \<Rightarrow> bool" where
  "chargingLine (LogFinishedCharging s) = True"
| "chargingLine (LogNewChargingPeak s) = True"
| "chargingLine (LogStartedCharging s) = True"
| "chargingLine e = False"

fun drivingLine :: "out_event \<Rightarrow> bool" where
  "drivingLine (LogStartedDriving s) = True"
| "drivingLine (LogFinishedDriving s) = True"
| "drivingLine e = False"

section \<open>Characters\<close>



section \<open>Properties of place names\<close>












section \<open>Properties of field updates\<close>

lemma Update_at: "at' (carState (Update pf now key v car)) = now"
  by (simp add: Update_def Let_def split: option.split)

lemma Update_shift_state:
  "key = ''shift_state'' \<longrightarrow>
   Update pf now key v car = car\<lparr>carState := (carState car)\<lparr>at' := now, shiftState := v\<rparr>\<rparr>"
  by (simp add: Update_def Let_def)

lemma Update_geofence:
  "key = ''geofence'' \<longrightarrow>
   Update pf now key v car = car\<lparr>carState := (carState car)\<lparr>at' := now, geofence := v\<rparr>\<rparr>"
  by (simp add: Update_def Let_def)

lemma Update_plugged_in:
  "key = ''plugged_in'' \<longrightarrow>
   Update pf now key v car = car\<lparr>carState := (carState car)\<lparr>at' := now, pluggedIn := (v = ''true'')\<rparr>\<rparr>"
  by (simp add: Update_def Let_def)

lemma Update_charger_power:
  "key = ''charger_power'' \<and> Atoi v = Some i \<longrightarrow>
   Update pf now key v car = car\<lparr>carState := (carState car)\<lparr>at' := now, chargerPower := i\<rparr>\<rparr>"
  by (simp add: Update_def Let_def)

lemma Update_charger_voltage:
  "key = ''charger_voltage'' \<and> Atoi v = Some i \<longrightarrow>
   Update pf now key v car = car\<lparr>carState := (carState car)\<lparr>at' := now, chargerVoltage := i\<rparr>\<rparr>"
  by (simp add: Update_def Let_def)

lemma Update_charger_actual_current:
  "key = ''charger_actual_current'' \<and> Atoi v = Some i \<longrightarrow>
   Update pf now key v car = car\<lparr>carState := (carState car)\<lparr>at' := now, chargerActualCurrent := i\<rparr>\<rparr>"
  by (simp add: Update_def Let_def)

lemma Update_battery_level:
  "key = ''battery_level'' \<and> Atoi v = Some i \<longrightarrow>
   Update pf now key v car = car\<lparr>carState := (carState car)\<lparr>at' := now, batteryLevel := i\<rparr>\<rparr>"
  by (simp add: Update_def Let_def)

lemma Update_time_to_full_charge:
  "key = ''time_to_full_charge'' \<and> pf v = Some x \<longrightarrow>
   Update pf now key v car = car\<lparr>carState := (carState car)\<lparr>at' := now, timeToFullCharge := x\<rparr>\<rparr>"
  by (simp add: Update_def Let_def)

lemma Update_charge_energy_added:
  "key = ''charge_energy_added'' \<and> pf v = Some x \<longrightarrow>
   Update pf now key v car = car\<lparr>carState := (carState car)\<lparr>at' := now, chargeEnergyAdded := x\<rparr>\<rparr>"
  by (simp add: Update_def Let_def)

lemma Update_est_battery_range_km:
  "key = ''est_battery_range_km'' \<and> pf v = Some x \<longrightarrow>
   Update pf now key v car = car\<lparr>carState := (carState car)\<lparr>at' := now, estBatteryRangeKm := x\<rparr>\<rparr>"
  by (simp add: Update_def Let_def)

lemma Update_ideal_battery_range_km:
  "key = ''ideal_battery_range_km'' \<and> pf v = Some x \<longrightarrow>
   Update pf now key v car = car\<lparr>carState := (carState car)\<lparr>at' := now, idealBatteryRangeKm := x\<rparr>\<rparr>"
  by (simp add: Update_def Let_def)

lemma Update_rated_battery_range_km:
  "key = ''rated_battery_range_km'' \<and> pf v = Some x \<longrightarrow>
   Update pf now key v car = car\<lparr>carState := (carState car)\<lparr>at' := now, ratedBatteryRangeKm := x\<rparr>\<rparr>"
  by (simp add: Update_def Let_def)

lemma Update_odometer:
  "key = ''odometer'' \<and> pf v = Some x \<longrightarrow>
   Update pf now key v car = car\<lparr>carState := (carState car)\<lparr>at' := now, odometer := x\<rparr>\<rparr>"
  by (simp add: Update_def Let_def)

lemma Update_outside_temp:
  "key = ''outside_temp'' \<and> pf v = Some x \<longrightarrow>
   Update pf now key v car = car\<lparr>carState := (carState car)\<lparr>at' := now, outsideTemp := x\<rparr>\<rparr>"
  by (simp add: Update_def Let_def)

lemma Update_inside_temp:
  "key = ''inside_temp'' \<and> pf v = Some x \<longrightarrow>
   Update pf now key v car = car\<lparr>carState := (carState car)\<lparr>at' := now, insideTemp := x\<rparr>\<rparr>"
  by (simp add: Update_def Let_def)

lemma Update_latitude:
  "key = ''latitude'' \<and> pf v = Some x \<longrightarrow>
   Update pf now key v car = car\<lparr>carState := (carState car)\<lparr>at' := now, latitude := x\<rparr>\<rparr>"
  by (simp add: Update_def Let_def)

lemma Update_longitude:
  "key = ''longitude'' \<and> pf v = Some x \<longrightarrow>
   Update pf now key v car = car\<lparr>carState := (carState car)\<lparr>at' := now, longitude := x\<rparr>\<rparr>"
  by (simp add: Update_def Let_def)

lemma Update_display_name:
  "key = ''display_name'' \<longrightarrow>
   Update pf now key v car = car\<lparr>displayName := v, carState := (carState car)\<lparr>at' := now\<rparr>\<rparr>"
  by (simp add: Update_def Let_def)

lemma Update_state:
  "key = ''state'' \<longrightarrow>
   Update pf now key v car = car\<lparr>state := v, carState := (carState car)\<lparr>at' := now\<rparr>\<rparr>"
  by (simp add: Update_def Let_def)

lemma Update_int_unparsed:
  "key \<in> {''charger_power'', ''charger_voltage'', ''charger_actual_current'', ''battery_level''} \<Longrightarrow> Atoi v = None \<Longrightarrow>
   Update pf now key v car = car\<lparr>carState := (carState car)\<lparr>at' := now\<rparr>\<rparr>"
  by (elim insertE emptyE) (simp_all add: Update_def Let_def)

lemma Update_float_unparsed:
  "key \<in> {''time_to_full_charge'',
       ''charge_energy_added'',
       ''est_battery_range_km'',
       ''ideal_battery_range_km'',
       ''rated_battery_range_km'',
       ''odometer'',
       ''outside_temp'',
       ''inside_temp'',
       ''latitude'',
       ''longitude''} \<Longrightarrow> pf v = None \<Longrightarrow>
   Update pf now key v car = car\<lparr>carState := (carState car)\<lparr>at' := now\<rparr>\<rparr>"
  by (elim insertE emptyE) (simp_all add: Update_def Let_def)

lemma Update_unrecognized:
  "key \<notin> {''display_name'', ''state'', ''shift_state'', ''geofence'', ''plugged_in'',
       ''charger_power'',
       ''charger_voltage'',
       ''charger_actual_current'',
       ''battery_level'',
       ''time_to_full_charge'',
       ''charge_energy_added'',
       ''est_battery_range_km'',
       ''ideal_battery_range_km'',
       ''rated_battery_range_km'',
       ''odometer'',
       ''outside_temp'',
       ''inside_temp'',
       ''latitude'',
       ''longitude''} \<Longrightarrow>
   Update pf now key v car = car\<lparr>carState := (carState car)\<lparr>at' := now\<rparr>\<rparr>"
  by (simp add: Update_def Let_def)

lemma Update_ignored:
  "key \<in> {''charger_power'', ''charger_voltage'', ''charger_actual_current'', ''battery_level''} \<and> Atoi v = None \<or>
    key \<in> {''time_to_full_charge'',
       ''charge_energy_added'',
       ''est_battery_range_km'',
       ''ideal_battery_range_km'',
       ''rated_battery_range_km'',
       ''odometer'',
       ''outside_temp'',
       ''inside_temp'',
       ''latitude'',
       ''longitude''} \<and> pf v = None \<or>
    key \<notin> {''display_name'', ''state'', ''shift_state'', ''geofence'', ''plugged_in'',
       ''charger_power'',
       ''charger_voltage'',
       ''charger_actual_current'',
       ''battery_level'',
       ''time_to_full_charge'',
       ''charge_energy_added'',
       ''est_battery_range_km'',
       ''ideal_battery_range_km'',
       ''rated_battery_range_km'',
       ''odometer'',
       ''outside_temp'',
       ''inside_temp'',
       ''latitude'',
       ''longitude''} \<longrightarrow>
   Update pf now key v car = car\<lparr>carState := (carState car)\<lparr>at' := now\<rparr>\<rparr>"
  by (intro impI, elim disjE conjE)
    (erule (1) Update_int_unparsed, erule (1) Update_float_unparsed, erule Update_unrecognized)

text \<open>
  Claim C8. Every call of \<open>Update\<close> sets the timestamp to the current time. A key
  of the snapshot with a value that parses overwrites the one field of the snapshot it
  names and nothing else of the car; \<open>display_name\<close> and \<open>state\<close> overwrite
  the field of the car they name and leave the snapshot, but for its timestamp, as it
  was. A numeric key with a value that does not parse, and a key that is not recognized,
  change nothing but the timestamp; \<open>Update\<close> has no error to return.
\<close>

theorem C8_Update_frame:
  "at' (carState (Update pf now key v car)) = now \<and>
   (key = ''shift_state'' \<longrightarrow>
      Update pf now key v car = car\<lparr>carState := (carState car)\<lparr>at' := now, shiftState := v\<rparr>\<rparr>) \<and>
   (key = ''geofence'' \<longrightarrow>
      Update pf now key v car = car\<lparr>carState := (carState car)\<lparr>at' := now, geofence := v\<rparr>\<rparr>) \<and>
   (key = ''plugged_in'' \<longrightarrow>
      Update pf now key v car = car\<lparr>carState := (carState car)\<lparr>at' := now, pluggedIn := (v = ''true'')\<rparr>\<rparr>) \<and>
   (key = ''charger_power'' \<and> Atoi v = Some i \<longrightarrow>
      Update pf now key v car = car\<lparr>carState := (carState car)\<lparr>at' := now, chargerPower := i\<rparr>\<rparr>) \<and>
   (key = ''charger_voltage'' \<and> Atoi v = Some i \<longrightarrow>
      Update pf now key v car = car\<lparr>carState := (carState car)\<lparr>at' := now, chargerVoltage := i\<rparr>\<rparr>) \<and>
   (key = ''charger_actual_current'' \<and> Atoi v = Some i \<longrightarrow>
      Update pf now key v car = car\<lparr>carState := (carState car)\<lparr>at' := now, chargerActualCurrent := i\<rparr>\<rparr>) \<and>
   (key = ''battery_level'' \<and> Atoi v = Some i \<longrightarrow>
      Update pf now key v car = car\<lparr>carState := (carState car)\<lparr>at' := now, batteryLevel := i\<rparr>\<rparr>) \<and>
   (key = ''time_to_full_charge'' \<and> pf v = Some x \<longrightarrow>
      Update pf now key v car = car\<lparr>carState := (carState car)\<lparr>at' := now, timeToFullCharge := x\<rparr>\<rparr>) \<and>
   (key = ''charge_energy_added'' \<and> pf v = Some x \<longrightarrow>
      Update pf now key v car = car\<lparr>carState := (carState car)\<lparr>at' := now, chargeEnergyAdded := x\<rparr>\<rparr>) \<and>
   (key = ''est_battery_range_km'' \<and> pf v = Some x \<longrightarrow>
      Update pf now key v car = car\<lparr>carState := (carState car)\<lparr>at' := now, estBatteryRangeKm := x\<rparr>\<rparr>) \<and>
   (key = ''ideal_battery_range_km'' \<and> pf v = Some x \<longrightarrow>
      Update pf now key v car = car\<lparr>carState := (carState car)\<lparr>at' := now, idealBatteryRangeKm := x\<rparr>\<rparr>) \<and>
   (key = ''rated_battery_range_km'' \<and> pf v = Some x \<longrightarrow>
      Update pf now key v car = car\<lparr>carState := (carState car)\<lparr>at' := now, ratedBatteryRangeKm := x\<rparr>\<rparr>) \<and>
   (key = ''odometer'' \<and> pf v = Some x \<longrightarrow>
      Update pf now key v car = car\<lparr>carState := (carState car)\<lparr>at' := now, odometer := x\<rparr>\<rparr>) \<and>
   (key = ''outside_temp'' \<and> pf v = Some x \<longrightarrow>
      Update pf now key v car = car\<lparr>carState := (carState car)\<lparr>at' := now, outsideTemp := x\<rparr>\<rparr>) \<and>
   (key = ''inside_temp'' \<and> pf v = Some x \<longrightarrow>
      Update pf now key v car = car\<lparr>carState := (carState car)\<lparr>at' := now, insideTemp := x\<rparr>\<rparr>) \<and>
   (key = ''latitude'' \<and> pf v = Some x \<longrightarrow>
      Update pf now key v car = car\<lparr>carState := (carState car)\<lparr>at' := now, latitude := x\<rparr>\<rparr>) \<and>
   (key = ''longitude'' \<and> pf v = Some x \<longrightarrow>
      Update pf now key v car = car\<lparr>carState := (carState car)\<lparr>at' := now, longitude := x\<rparr>\<rparr>) \<and>
   (key = ''display_name'' \<longrightarrow>
      Update pf now key v car = car\<lparr>displayName := v, carState := (carState car)\<lparr>at' := now\<rparr>\<rparr>) \<and>
   (key = ''state'' \<longrightarrow>
      Update pf now key v car = car\<lparr>state := v, carState := (carState car)\<lparr>at' := now\<rparr>\<rparr>) \<and>
   (key \<in> {''charger_power'', ''charger_voltage'', ''charger_actual_current'', ''battery_level''} \<and> Atoi v = None \<or>
    key \<in> {''time_to_full_charge'',
       ''charge_energy_added'',
       ''est_battery_range_km'',
       ''ideal_battery_range_km'',
       ''rated_battery_range_km'',
       ''odometer'',
       ''outside_temp'',
       ''inside_temp'',
       ''latitude'',
       ''longitude''} \<and> pf v = None \<or>
    key \<notin> {''display_name'', ''state'', ''shift_state'', ''geofence'', ''plugged_in'',
       ''charger_power'',
       ''charger_voltage'',
       ''charger_actual_current'',
       ''battery_level'',
       ''time_to_full_charge'',
       ''charge_energy_added'',
       ''est_battery_range_km'',
       ''ideal_battery_range_km'',
       ''rated_battery_range_km'',
       ''odometer'',
       ''outside_temp'',
       ''inside_temp'',
       ''latitude'',
       ''longitude''} \<longrightarrow>
      Update pf now key v car = car\<lparr>carState := (carState car)\<lparr>at' := now\<rparr>\<rparr>)"
  by (intro conjI)
    (rule Update_at
       Update_shift_state
       Update_geofence
       Update_plugged_in
       Update_charger_power
       Update_charger_voltage
       Update_charger_actual_current
       Update_battery_level
       Update_time_to_full_charge
       Update_charge_energy_added
       Update_est_battery_range_km
       Update_ideal_battery_range_km
       Update_rated_battery_range_km
       Update_odometer
       Update_outside_temp
       Update_inside_temp
       Update_latitude
       Update_longitude
       Update_display_name
       Update_state
       Update_ignored)+

lemma Atoi_7: "Atoi ''7'' = Some 7"
  by (simp add: Atoi_def is_digit_def dec_val_def digit_val_def Let_def)

lemma Atoi_7kW: "Atoi ''7kW'' = None"
  by (simp add: Atoi_def is_digit_def dec_val_def digit_val_def Let_def)

theorem C8_Update_frame_witness:
  "Update (\<lambda>s. if s = ''12.5'' then Some (Fin 12.5) else None) \<lparr>nanos = 1, zoneOffset = 0\<rparr>
     ''charger_power'' ''7'' zeroCar =
     zeroCar\<lparr>carState := (carState zeroCar)\<lparr>at' := \<lparr>nanos = 1, zoneOffset = 0\<rparr>, chargerPower := 7\<rparr>\<rparr> \<and>
   Update (\<lambda>s. if s = ''12.5'' then Some (Fin 12.5) else None) \<lparr>nanos = 1, zoneOffset = 0\<rparr>
     ''charger_power'' ''7kW'' zeroCar =
     zeroCar\<lparr>carState := (carState zeroCar)\<lparr>at' := \<lparr>nanos = 1, zoneOffset = 0\<rparr>\<rparr>\<rparr> \<and>
   Update (\<lambda>s. if s = ''12.5'' then Some (Fin 12.5) else None) \<lparr>nanos = 1, zoneOffset = 0\<rparr>
     ''odometer'' ''12.5'' zeroCar =
     zeroCar\<lparr>carState := (carState zeroCar)\<lparr>at' := \<lparr>nanos = 1, zoneOffset = 0\<rparr>, odometer := Fin 12.5\<rparr>\<rparr> \<and>
   Update (\<lambda>s. if s = ''12.5'' then Some (Fin 12.5) else None) \<lparr>nanos = 1, zoneOffset = 0\<rparr>
     ''odometer'' ''far'' zeroCar =
     zeroCar\<lparr>carState := (carState zeroCar)\<lparr>at' := \<lparr>nanos = 1, zoneOffset = 0\<rparr>\<rparr>\<rparr> \<and>
   Update (\<lambda>s. if s = ''12.5'' then Some (Fin 12.5) else None) \<lparr>nanos = 1, zoneOffset = 0\<rparr>
     ''speed'' ''30'' zeroCar =
     zeroCar\<lparr>carState := (carState zeroCar)\<lparr>at' := \<lparr>nanos = 1, zoneOffset = 0\<rparr>\<rparr>\<rparr> \<and>
   Update (\<lambda>s. if s = ''12.5'' then Some (Fin 12.5) else None) \<lparr>nanos = 1, zoneOffset = 0\<rparr>
     ''display_name'' ''Tess'' zeroCar =
     zeroCar\<lparr>displayName := ''Tess'', carState := (carState zeroCar)\<lparr>at' := \<lparr>nanos = 1, zoneOffset = 0\<rparr>\<rparr>\<rparr>"
proof -
  let ?pf = "\<lambda>s. if s = ''12.5'' then Some (Fin 12.5) else None"
  let ?t = "\<lparr>nanos = 1, zoneOffset = 0\<rparr>"
  have a: "''7kW'' \<noteq> ''12.5''" "''far'' \<noteq> ''12.5''" by simp_all
  show ?thesis
    using C8_Update_frame [of ?pf ?t "''charger_power''" "''7''" zeroCar 7 "Fin 0"]
      C8_Update_frame [of ?pf ?t "''charger_power''" "''7kW''" zeroCar 0 "Fin 0"]
      C8_Update_frame [of ?pf ?t "''odometer''" "''12.5''" zeroCar 0 "Fin 12.5"]
      C8_Update_frame [of ?pf ?t "''odometer''" "''far''" zeroCar 0 "Fin 0"]
      C8_Update_frame [of ?pf ?t "''speed''" "''30''" zeroCar 0 "Fin 0"]
      C8_Update_frame [of ?pf ?t "''display_name''" "''Tess''" zeroCar 0 "Fin 0"]
      Atoi_7 Atoi_7kW
    by simp
qed


section \<open>Properties of the messages\<close>

text \<open>
  Claim C2. The charging message is empty exactly when the battery level at the end
  equals the one at the start, whatever the other fields are.
\<close>

theorem C2_finishChargingMessage_empty:
  "(finishChargingMessage lk start end peak = '''') = (batteryLevel end = batteryLevel start)"
  by (simp add: finishChargingMessage_def Let_def glyph_plug_def)

section \<open>Properties of the default car\<close>

lemma carHandler_unparsed: "carHandler pf now None payload m = m"
  by (simp add: carHandler_def)

lemma carHandler_known:
  "cars m carId = Some car \<Longrightarrow>
   carHandler pf now (Some (carId, key)) payload m =
     m\<lparr>cars := (cars m)(carId \<mapsto> Update pf now key payload car)\<rparr>"
  by (simp add: carHandler_def)

lemma carHandler_new:
  "cars m carId = None \<Longrightarrow>
   carHandler pf now (Some (carId, key)) payload m =
     m\<lparr>cars := (cars m)(carId \<mapsto> Update pf now key payload zeroCar), defaultCar := carId\<rparr>"
  by (simp add: carHandler_def)

lemma handleAll_defaultCar:
  "dom (cars m) = set known \<Longrightarrow>
   defaultCar (handleAll pf ms m) =
     (if discoveries known ms = [] then defaultCar m else last (discoveries known ms)) \<and>
   dom (cars (handleAll pf ms m)) = set known \<union> set (discoveries known ms)"
proof (induction known ms arbitrary: m rule: discoveries.induct)
  case (1 known)
  then show ?case by simp
next
  case (2 known now payload ms)
  then show ?case by (simp add: carHandler_unparsed)
next
  case (3 known now carId key payload ms)
  show ?case
  proof (cases "carId \<in> set known")
    case True
    with "3.prems" obtain car where car: "cars m carId = Some car" by auto
    let ?m = "carHandler pf now (Some (carId, key)) payload m"
    have "dom (cars ?m) = set known"
      using car "3.prems" True by (auto simp: carHandler_known)
    from "3.IH"(1) [OF True this] show ?thesis
      using True car by (simp add: carHandler_known)
  next
    case False
    with "3.prems" have new: "cars m carId = None" by auto
    let ?m = "carHandler pf now (Some (carId, key)) payload m"
    have "dom (cars ?m) = set (carId # known)"
      using new "3.prems" by (auto simp: carHandler_new)
    from "3.IH"(2) [OF False this] show ?thesis
      using False new by (auto simp: carHandler_new)
  qed
qed

text \<open>
  Claim C5, as the code has it. The default car is the car discovered last: after any
  list of messages that makes a car known, \<open>defaultCar\<close> is the identifier that was
  new most recently, that car exists, and the status command reports its battery
  level. While no car is known the status command reads through a nil pointer.
\<close>

theorem C5_defaultCar_last_discovered:
  "(discoveries [] ms \<noteq> [] \<longrightarrow>
      defaultCar (handleAll pf ms initMain) = last (discoveries [] ms) \<and>
      (\<exists>car. cars (handleAll pf ms initMain) (last (discoveries [] ms)) = Some car \<and>
         statusCommand (handleAll pf ms initMain) =
           Some (glyph_battery @ fmt_d (batteryLevel (carState car)) @ ''%''))) \<and>
   (discoveries [] ms = [] \<longrightarrow> statusCommand (handleAll pf ms initMain) = None)"
proof -
  let ?m = "handleAll pf ms initMain"
  have "dom (cars initMain) = set []" by (simp add: initMain_def)
  from handleAll_defaultCar [OF this, of pf ms]
  have d: "defaultCar ?m = (if discoveries [] ms = [] then 0 else last (discoveries [] ms))"
    and c: "dom (cars ?m) = set (discoveries [] ms)"
    by (simp_all add: initMain_def)
  show ?thesis
  proof (cases "discoveries [] ms = []")
    case True
    with d c have "cars ?m (defaultCar ?m) = None" by auto
    with True show ?thesis by (simp add: statusCommand_def)
  next
    case False
    then have "last (discoveries [] ms) \<in> dom (cars ?m)" using c by simp
    then obtain car where "cars ?m (last (discoveries [] ms)) = Some car" by auto
    with False d show ?thesis by (simp add: statusCommand_def statusMessage_def)
  qed
qed

lemmas decimal_numeral = decimal.simps [of "numeral k" for k]

lemma Atoi_50: "Atoi ''50'' = Some 50"
  by (simp add: Atoi_def is_digit_def dec_val_def digit_val_def Let_def)

lemma Atoi_80: "Atoi ''80'' = Some 80"
  by (simp add: Atoi_def is_digit_def dec_val_def digit_val_def Let_def)

lemma fmt_d_80: "fmt_d 80 = ''80''"
  by (simp add: fmt_d_def decimal_numeral)

lemma batteryLevel_Update:
  "Atoi v = Some i \<Longrightarrow> batteryLevel (carState (Update pf now ''battery_level'' v car)) = i"
  by (simp add: Update_def Let_def)

text \<open>
  The claim as stated fails: car 1 is discovered first, with battery level 50, then car
  2 with battery level 80, and the status command reports 80.
\<close>

theorem C5_first_car_counterexample:
  "hd (discoveries []
         [(\<lparr>nanos = 1, zoneOffset = 0\<rparr>, Some (1, ''battery_level''), ''50''),
          (\<lparr>nanos = 2, zoneOffset = 0\<rparr>, Some (2, ''battery_level''), ''80'')]) = 1 \<and>
   map_option (\<lambda>car. batteryLevel (carState car))
     (cars (handleAll (\<lambda>s. None)
         [(\<lparr>nanos = 1, zoneOffset = 0\<rparr>, Some (1, ''battery_level''), ''50''),
          (\<lparr>nanos = 2, zoneOffset = 0\<rparr>, Some (2, ''battery_level''), ''80'')] initMain) 1) = Some 50 \<and>
   statusCommand (handleAll (\<lambda>s. None)
         [(\<lparr>nanos = 1, zoneOffset = 0\<rparr>, Some (1, ''battery_level''), ''50''),
          (\<lparr>nanos = 2, zoneOffset = 0\<rparr>, Some (2, ''battery_level''), ''80'')] initMain) =
     Some (glyph_battery @ ''80%'')"
  by (simp add: carHandler_def initMain_def statusCommand_def statusMessage_def
      batteryLevel_Update Atoi_50 Atoi_80 fmt_d_80)

theorem C5_defaultCar_last_discovered_witness:
  "discoveries []
     [(\<lparr>nanos = 1, zoneOffset = 0\<rparr>, Some (1, ''battery_level''), ''50''),
      (\<lparr>nanos = 2, zoneOffset = 0\<rparr>, Some (2, ''battery_level''), ''80''),
      (\<lparr>nanos = 3, zoneOffset = 0\<rparr>, Some (1, ''battery_level''), ''50'')] = [1, 2] \<and>
   defaultCar (handleAll (\<lambda>s. None)
     [(\<lparr>nanos = 1, zoneOffset = 0\<rparr>, Some (1, ''battery_level''), ''50''),
      (\<lparr>nanos = 2, zoneOffset = 0\<rparr>, Some (2, ''battery_level''), ''80''),
      (\<lparr>nanos = 3, zoneOffset = 0\<rparr>, Some (1, ''battery_level''), ''50'')] initMain) = 2 \<and>
   discoveries [] [(\<lparr>nanos = 1, zoneOffset = 0\<rparr>, None, ''50'')] = [] \<and>
   statusCommand (handleAll (\<lambda>s. None) [(\<lparr>nanos = 1, zoneOffset = 0\<rparr>, None, ''50'')] initMain) = None"
  using C5_defaultCar_last_discovered [of
     "[(\<lparr>nanos = 1, zoneOffset = 0\<rparr>, Some (1, ''battery_level''), ''50''),
      (\<lparr>nanos = 2, zoneOffset = 0\<rparr>, Some (2, ''battery_level''), ''80''),
      (\<lparr>nanos = 3, zoneOffset = 0\<rparr>, Some (1, ''battery_level''), ''50'')]" "\<lambda>s. None"]
    C5_defaultCar_last_discovered [of "[(\<lparr>nanos = 1, zoneOffset = 0\<rparr>, None, ''50'')]" "\<lambda>s. None"]
  by simp

section \<open>Properties of the charging part\<close>

lemma drivingPart_frame:
  "charging (fst (drivingPart lk c)) = charging c \<and>
   chargeStart (fst (drivingPart lk c)) = chargeStart c \<and>
   chargePeak (fst (drivingPart lk c)) = chargePeak c \<and>
   carState (fst (drivingPart lk c)) = carState c"
  by (simp add: drivingPart_def Let_def)

lemma drivingPart_lines: "filter chargingLine (snd (drivingPart lk c)) = []"
  by (simp add: drivingPart_def Let_def)

lemma chargingPart_frame:
  "carState (fst (chargingPart lk c)) = carState c \<and>
   driving (fst (chargingPart lk c)) = driving c \<and>
   driveStart (fst (chargingPart lk c)) = driveStart c"
  by (simp add: chargingPart_def Let_def)

lemma evaluate_charging_fields:
  "charging (fst (evaluate lk c)) = charging (fst (chargingPart lk c)) \<and>
   chargeStart (fst (evaluate lk c)) = chargeStart (fst (chargingPart lk c)) \<and>
   chargePeak (fst (evaluate lk c)) = chargePeak (fst (chargingPart lk c))"
proof -
  obtain c1 o1 b where cp: "chargingPart lk c = (c1, o1, b)"
    by (cases "chargingPart lk c") auto
  obtain c2 o2 where dp: "drivingPart lk c1 = (c2, o2)"
    by (cases "drivingPart lk c1") auto
  show ?thesis
    using drivingPart_frame [of lk c1] by (simp add: evaluate_def cp dp)
qed

lemma evaluate_charging_lines:
  "filter chargingLine (snd (evaluate lk c)) = filter chargingLine (fst (snd (chargingPart lk c)))"
proof -
  obtain c1 o1 b where cp: "chargingPart lk c = (c1, o1, b)"
    by (cases "chargingPart lk c") auto
  obtain c2 o2 where dp: "drivingPart lk c1 = (c2, o2)"
    by (cases "drivingPart lk c1") auto
  show ?thesis
    using drivingPart_lines [of lk c1] by (simp add: evaluate_def cp dp)
qed

text \<open>The three cases of the charging part, and the case that none applies.\<close>

lemma chargingPart_end:
  "charging c \<Longrightarrow> chargerPower (carState c) = 0 \<Longrightarrow>
   fst (chargingPart lk c) = c\<lparr>charging := False\<rparr> \<and>
   filter chargingLine (fst (snd (chargingPart lk c))) = [LogFinishedCharging (carState c)]"
  by (simp add: chargingPart_def Let_def)

lemma chargingPart_peak:
  "charging c \<Longrightarrow> chargerPower (carState c) \<noteq> 0 \<Longrightarrow>
   sint (chargerPower (chargePeak c)) < sint (chargerPower (carState c)) \<Longrightarrow>
   chargingPart lk c = (c\<lparr>chargePeak := carState c\<rparr>, [LogNewChargingPeak (carState c)], False)"
  by (simp add: chargingPart_def Let_def)

lemma chargingPart_start:
  "\<not> charging c \<Longrightarrow> 0 < sint (chargerPower (carState c)) \<Longrightarrow>
   chargingPart lk c =
     (c\<lparr>charging := True, chargeStart := carState c, chargePeak := carState c\<rparr>,
      [LogStartedCharging (carState c)], False)"
  by (simp add: chargingPart_def Let_def)

lemma chargingPart_none:
  "\<not> (charging c \<and> chargerPower (carState c) = 0) \<Longrightarrow>
   \<not> (charging c \<and> sint (chargerPower (chargePeak c)) < sint (chargerPower (carState c))) \<Longrightarrow>
   \<not> (\<not> charging c \<and> 0 < sint (chargerPower (carState c))) \<Longrightarrow>
   chargingPart lk c = (c, [], False)"
  by (simp add: chargingPart_def Let_def)

lemma chargingPart_cases:
  obtains
    (finished) "charging c" "chargerPower (carState c) = 0"
  | (peak) "charging c" "chargerPower (carState c) \<noteq> 0"
      "sint (chargerPower (chargePeak c)) < sint (chargerPower (carState c))"
  | (started) "\<not> charging c" "0 < sint (chargerPower (carState c))"
  | (none) "\<not> (charging c \<and> chargerPower (carState c) = 0)"
      "\<not> (charging c \<and> sint (chargerPower (chargePeak c)) < sint (chargerPower (carState c)))"
      "\<not> (\<not> charging c \<and> 0 < sint (chargerPower (carState c)))"
  by blast

lemma evaluate_one_case: "length (filter chargingLine (snd (evaluate lk c))) \<le> 1"
  by (cases c rule: chargingPart_cases)
    (simp_all add: evaluate_charging_lines chargingPart_end chargingPart_peak chargingPart_start
      chargingPart_none)

lemma evaluate_finished_line:
  "(LogFinishedCharging (carState c) \<in> set (filter chargingLine (snd (evaluate lk c)))) =
   (charging c \<and> chargerPower (carState c) = 0)"
  by (cases c rule: chargingPart_cases)
    (auto simp: evaluate_charging_lines chargingPart_end chargingPart_peak chargingPart_start
      chargingPart_none simp del: set_filter)

lemma evaluate_peak_line:
  "(LogNewChargingPeak (carState c) \<in> set (filter chargingLine (snd (evaluate lk c)))) =
   (charging c \<and> chargerPower (carState c) \<noteq> 0 \<and>
    sint (chargerPower (chargePeak c)) < sint (chargerPower (carState c)))"
  by (cases c rule: chargingPart_cases)
    (auto simp: evaluate_charging_lines chargingPart_end chargingPart_peak chargingPart_start
      chargingPart_none simp del: set_filter)

lemma evaluate_started_line:
  "(LogStartedCharging (carState c) \<in> set (filter chargingLine (snd (evaluate lk c)))) =
   (\<not> charging c \<and> 0 < sint (chargerPower (carState c)))"
  by (cases c rule: chargingPart_cases)
    (auto simp: evaluate_charging_lines chargingPart_end chargingPart_peak chargingPart_start
      chargingPart_none simp del: set_filter)

lemma evaluate_peak:
  "chargePeak (fst (evaluate lk c)) =
     (if charging c \<and> chargerPower (carState c) = 0 then chargePeak c
      else if charging c \<and> sint (chargerPower (chargePeak c)) < sint (chargerPower (carState c))
        then carState c
      else if \<not> charging c \<and> 0 < sint (chargerPower (carState c)) then carState c
      else chargePeak c)"
  by (cases c rule: chargingPart_cases)
    (auto simp: evaluate_charging_fields chargingPart_end chargingPart_peak chargingPart_start
      chargingPart_none)

lemma evaluate_charging:
  "charging (fst (evaluate lk c)) =
     (if charging c then chargerPower (carState c) \<noteq> 0 else 0 < sint (chargerPower (carState c)))"
  by (cases c rule: chargingPart_cases)
    (auto simp: evaluate_charging_fields chargingPart_end chargingPart_peak chargingPart_start
      chargingPart_none)

lemma evaluate_chargeStart:
  "chargeStart (fst (evaluate lk c)) =
     (if \<not> charging c \<and> 0 < sint (chargerPower (carState c)) then carState c else chargeStart c)"
  by (cases c rule: chargingPart_cases)
    (auto simp: evaluate_charging_fields chargingPart_end chargingPart_peak chargingPart_start
      chargingPart_none)

lemma evaluateAll_active:
  "charging c \<Longrightarrow> \<forall>s\<in>set ss. chargerPower s \<noteq> 0 \<Longrightarrow>
   charging (evaluateAll lk c ss) \<and>
   chargeStart (evaluateAll lk c ss) = chargeStart c \<and>
   chargePeak (evaluateAll lk c ss) \<in> insert (chargePeak c) (set ss) \<and>
   sint (chargerPower (chargePeak (evaluateAll lk c ss))) =
     Max (insert (sint (chargerPower (chargePeak c))) ((\<lambda>s. sint (chargerPower s)) ` set ss))"
proof (induction ss arbitrary: c)
  case Nil
  then show ?case by simp
next
  case (Cons s ss)
  let ?c = "fst (evaluate lk (c\<lparr>carState := s\<rparr>))"
  have s: "chargerPower s \<noteq> 0" and ss: "\<forall>s\<in>set ss. chargerPower s \<noteq> 0"
    using Cons.prems by simp_all
  have 1: "charging ?c" and 2: "chargeStart ?c = chargeStart c"
    using Cons.prems(1) s by (simp_all add: evaluate_charging evaluate_chargeStart)
  have 3: "chargePeak ?c =
      (if sint (chargerPower (chargePeak c)) < sint (chargerPower s) then s else chargePeak c)"
    using Cons.prems(1) s by (simp add: evaluate_peak)
  have 4: "sint (chargerPower (chargePeak ?c)) =
      max (sint (chargerPower (chargePeak c))) (sint (chargerPower s))"
    using 3 by (simp add: max_def)
  from Cons.IH [OF 1 ss]
  have ih: "charging (evaluateAll lk ?c ss)" "chargeStart (evaluateAll lk ?c ss) = chargeStart ?c"
    "chargePeak (evaluateAll lk ?c ss) \<in> insert (chargePeak ?c) (set ss)"
    "sint (chargerPower (chargePeak (evaluateAll lk ?c ss))) =
       Max (insert (sint (chargerPower (chargePeak ?c))) ((\<lambda>s. sint (chargerPower s)) ` set ss))"
    by simp_all
  have fin: "finite ((\<lambda>s. sint (chargerPower s)) ` set ss)" by simp
  have "Max (insert (max (sint (chargerPower (chargePeak c))) (sint (chargerPower s)))
          ((\<lambda>s. sint (chargerPower s)) ` set ss)) =
        Max (insert (sint (chargerPower (chargePeak c)))
          (insert (sint (chargerPower s)) ((\<lambda>s. sint (chargerPower s)) ` set ss)))"
  proof (cases "set ss = {}")
    case True
    then show ?thesis by (simp add: max.commute)
  next
    case False
    then show ?thesis using fin by (simp add: max.assoc)
  qed
  with ih 2 3 4 show ?case by (auto split: if_splits)
qed

lemma evaluateAll_session:
  assumes "\<not> charging c" "0 < sint (chargerPower s0)" "\<forall>s\<in>set ss. chargerPower s \<noteq> 0"
  shows "charging (evaluateAll lk c (s0 # ss)) \<and>
   chargeStart (evaluateAll lk c (s0 # ss)) = s0 \<and>
   chargePeak (evaluateAll lk c (s0 # ss)) \<in> set (s0 # ss) \<and>
   sint (chargerPower (chargePeak (evaluateAll lk c (s0 # ss)))) =
     Max ((\<lambda>s. sint (chargerPower s)) ` set (s0 # ss))"
proof -
  let ?c = "fst (evaluate lk (c\<lparr>carState := s0\<rparr>))"
  have 1: "charging ?c" "chargeStart ?c = s0" "chargePeak ?c = s0"
    using assms(1,2) by (simp_all add: evaluate_charging evaluate_chargeStart evaluate_peak)
  from evaluateAll_active [OF 1(1) assms(3), of lk] 1 show ?thesis by simp
qed


text \<open>
  Claim C1. While a car is charging, an evaluation replaces the peak snapshot only by
  the current snapshot and only when the current charger power is strictly above the
  power of the peak; an equal power leaves the peak as it is. Hence, from the
  evaluation that starts a session and as long as no evaluation sees the power 0, the
  power of the peak is the greatest power of the snapshots evaluated since the start.
  One evaluation logs at most one of the three charging cases: the end when the car is
  charging and the power is 0, else the new peak, else the start.
\<close>

theorem C1_charging_peak:
  "(charging c \<and> chargePeak (fst (evaluate lk c)) \<noteq> chargePeak c \<longrightarrow>
      sint (chargerPower (chargePeak c)) < sint (chargerPower (carState c)) \<and>
      chargePeak (fst (evaluate lk c)) = carState c) \<and>
   (charging c \<and> chargerPower (carState c) = chargerPower (chargePeak c) \<longrightarrow>
      chargePeak (fst (evaluate lk c)) = chargePeak c) \<and>
   (\<not> charging c0 \<and> 0 < sint (chargerPower s0) \<and> (\<forall>s\<in>set ss. chargerPower s \<noteq> 0) \<longrightarrow>
      charging (evaluateAll lk c0 (s0 # ss)) \<and>
      chargeStart (evaluateAll lk c0 (s0 # ss)) = s0 \<and>
      chargePeak (evaluateAll lk c0 (s0 # ss)) \<in> set (s0 # ss) \<and>
      sint (chargerPower (chargePeak (evaluateAll lk c0 (s0 # ss)))) =
        Max ((\<lambda>s. sint (chargerPower s)) ` set (s0 # ss))) \<and>
   length (filter chargingLine (snd (evaluate lk c))) \<le> 1 \<and>
   (LogFinishedCharging (carState c) \<in> set (snd (evaluate lk c))) =
     (charging c \<and> chargerPower (carState c) = 0) \<and>
   (LogNewChargingPeak (carState c) \<in> set (snd (evaluate lk c))) =
     (charging c \<and> chargerPower (carState c) \<noteq> 0 \<and>
      sint (chargerPower (chargePeak c)) < sint (chargerPower (carState c))) \<and>
   (LogStartedCharging (carState c) \<in> set (snd (evaluate lk c))) =
     (\<not> charging c \<and> 0 < sint (chargerPower (carState c)))"
proof -
  have 1: "charging c \<and> chargePeak (fst (evaluate lk c)) \<noteq> chargePeak c \<longrightarrow>
      sint (chargerPower (chargePeak c)) < sint (chargerPower (carState c)) \<and>
      chargePeak (fst (evaluate lk c)) = carState c"
    by (simp add: evaluate_peak)
  have 2: "charging c \<and> chargerPower (carState c) = chargerPower (chargePeak c) \<longrightarrow>
      chargePeak (fst (evaluate lk c)) = chargePeak c"
    by (simp add: evaluate_peak)
  have 3: "\<not> charging c0 \<and> 0 < sint (chargerPower s0) \<and> (\<forall>s\<in>set ss. chargerPower s \<noteq> 0) \<longrightarrow>
      charging (evaluateAll lk c0 (s0 # ss)) \<and>
      chargeStart (evaluateAll lk c0 (s0 # ss)) = s0 \<and>
      chargePeak (evaluateAll lk c0 (s0 # ss)) \<in> set (s0 # ss) \<and>
      sint (chargerPower (chargePeak (evaluateAll lk c0 (s0 # ss)))) =
        Max ((\<lambda>s. sint (chargerPower s)) ` set (s0 # ss))"
    using evaluateAll_session [of c0 s0 ss lk] by blast
  have mem: "(x \<in> set (snd (evaluate lk c))) = (x \<in> set (filter chargingLine (snd (evaluate lk c))))"
    if "chargingLine x" for x
    using that by simp
  have 5: "(LogFinishedCharging (carState c) \<in> set (snd (evaluate lk c))) =
     (charging c \<and> chargerPower (carState c) = 0)"
    using evaluate_finished_line [of c lk] by (simp only: mem chargingLine.simps)
  have 6: "(LogNewChargingPeak (carState c) \<in> set (snd (evaluate lk c))) =
     (charging c \<and> chargerPower (carState c) \<noteq> 0 \<and>
      sint (chargerPower (chargePeak c)) < sint (chargerPower (carState c)))"
    using evaluate_peak_line [of c lk] by (simp only: mem chargingLine.simps)
  have 7: "(LogStartedCharging (carState c) \<in> set (snd (evaluate lk c))) =
     (\<not> charging c \<and> 0 < sint (chargerPower (carState c)))"
    using evaluate_started_line [of c lk] by (simp only: mem chargingLine.simps)
  from 1 2 3 evaluate_one_case [of lk c] 5 6 7 show ?thesis
    by (intro conjI)
qed

theorem C1_charging_peak_witness:
  "chargePeak (fst (evaluate (\<lambda>la lo. None)
      (zeroCar\<lparr>charging := True, carState := zeroCarState\<lparr>chargerPower := 8\<rparr>,
         chargePeak := zeroCarState\<lparr>chargerPower := 7\<rparr>\<rparr>))) = zeroCarState\<lparr>chargerPower := 8\<rparr> \<and>
   chargePeak (fst (evaluate (\<lambda>la lo. None)
      (zeroCar\<lparr>charging := True, carState := zeroCarState\<lparr>chargerPower := 7, batteryLevel := 60\<rparr>,
         chargePeak := zeroCarState\<lparr>chargerPower := 7\<rparr>\<rparr>))) = zeroCarState\<lparr>chargerPower := 7\<rparr> \<and>
   sint (chargerPower (chargePeak (evaluateAll (\<lambda>la lo. None) zeroCar
      [zeroCarState\<lparr>chargerPower := 7\<rparr>, zeroCarState\<lparr>chargerPower := 8\<rparr>,
       zeroCarState\<lparr>chargerPower := 8, batteryLevel := 52\<rparr>, zeroCarState\<lparr>chargerPower := 5\<rparr>]))) = 8"
proof -
  let ?lk = "\<lambda>la lo. None :: LookupResult option"
  let ?c1 = "zeroCar\<lparr>charging := True, carState := zeroCarState\<lparr>chargerPower := 8\<rparr>,
         chargePeak := zeroCarState\<lparr>chargerPower := 7\<rparr>\<rparr>"
  let ?c2 = "zeroCar\<lparr>charging := True, carState := zeroCarState\<lparr>chargerPower := 7, batteryLevel := 60\<rparr>,
         chargePeak := zeroCarState\<lparr>chargerPower := 7\<rparr>\<rparr>"
  let ?s0 = "zeroCarState\<lparr>chargerPower := 7\<rparr>"
  let ?ss = "[zeroCarState\<lparr>chargerPower := 8\<rparr>,
       zeroCarState\<lparr>chargerPower := 8, batteryLevel := 52\<rparr>, zeroCarState\<lparr>chargerPower := 5\<rparr>]"
  have a: "chargePeak (fst (evaluate ?lk ?c1)) \<noteq> chargePeak ?c1"
    by (simp add: evaluate_peak zeroCar_def zeroCarState_def)
  have b: "chargePeak (fst (evaluate ?lk ?c1)) = carState ?c1"
    using C1_charging_peak [of ?c1 ?lk zeroCar ?s0 "[]"] a by (simp add: zeroCar_def)
  have c: "chargePeak (fst (evaluate ?lk ?c2)) = chargePeak ?c2"
    using C1_charging_peak [of ?c2 ?lk zeroCar ?s0 "[]"] by (simp add: zeroCar_def)
  have d: "sint (chargerPower (chargePeak (evaluateAll ?lk zeroCar (?s0 # ?ss)))) =
        Max ((\<lambda>s. sint (chargerPower s)) ` set (?s0 # ?ss))"
    using C1_charging_peak [of ?c1 ?lk zeroCar ?s0 ?ss] by (simp add: zeroCar_def)
  have e: "Max ((\<lambda>s. sint (chargerPower s)) ` set (?s0 # ?ss)) = 8"
    by simp
  from b c d e show ?thesis by simp
qed

section \<open>Properties of durations\<close>

lemma div_minute:
  fixes q x :: int
  assumes "0 \<le> x" "x < 60000000000"
  shows "(60000000000 * q + x) div 60000000000 = q"
  using assms by simp

lemma uint_small:
  fixes k :: int
  assumes "0 \<le> k" "k < 2 ^ 63"
  shows "uint (word_of_int k :: 64 word) = k" "sint (word_of_int k :: 64 word) = k"
proof -
  have "k < 2 ^ 64" using assms(2) by simp
  then show "uint (word_of_int k :: 64 word) = k"
    using assms(1) by (simp add: uint_word_of_int)
  show "sint (word_of_int k :: 64 word) = k"
    using assms by (simp add: sint_sbintrunc' signed_take_bit_int_eq_self)
qed

lemma Round_Minute_nonneg:
  fixes d :: Duration
  assumes "0 \<le> sint d"
  shows "uint (Round d Minute div Minute) = (sint d + 30000000000) div 60000000000"
proof -
  define D where "D = sint d"
  define R where "R = D mod 60000000000"
  define q where "q = D div 60000000000"
  have D0: "0 \<le> D" and D63: "D < 2 ^ 63"
    using assms sint_lt [of d] by (simp_all add: D_def)
  have d: "d = word_of_int D" by (simp add: D_def)
  have R: "0 \<le> R" "R < 60000000000" by (simp_all add: R_def)
  have Dq: "D = 60000000000 * q + R" by (simp add: q_def R_def)
  have q0: "0 \<le> q" using D0 by (simp add: q_def pos_imp_zdiv_nonneg_iff)
  have m: "sint Minute = 60000000000" "uint Minute = 60000000000"
    by (simp_all add: Minute_def)
  have r: "go_rem d Minute = word_of_int R"
    using D0 by (simp add: go_rem_def m D_def [symmetric] R_def signed_modulo_int_def sgn_if)
  have R2: "0 \<le> R + R" "R + R < 2 ^ 63" using R by simp_all
  have "uint (word_of_int (R + R) :: 64 word) = R + R"
    by (rule uint_small(1) [OF R2])
  then have urr: "uint (word_of_int R + word_of_int R :: 64 word) = R + R"
    by (simp only: wi_hom_add)
  have lth: "lessThanHalf (word_of_int R) Minute = (R + R < 60000000000)"
    by (simp only: lessThanHalf_def word_less_alt urr m)
  show ?thesis
  proof (cases "R + R < 60000000000")
    case True
    have DR: "0 \<le> D - R" "D - R < 2 ^ 63" using Dq q0 D63 R by simp_all
    have "Round d Minute = d - word_of_int R"
      using assms True by (simp add: Round_def m r lth)
    also have "\<dots> = word_of_int (D - R)" by (simp add: d)
    finally have "uint (Round d Minute div Minute) = (D - R) div 60000000000"
      by (simp only: uint_div m uint_small [OF DR])
    also have "D - R = 60000000000 * q + 0" using Dq by simp
    also have "(60000000000 * q + 0) div 60000000000 = q" by simp
    also have "q = (60000000000 * q + (R + 30000000000)) div 60000000000"
      using R True div_minute [of "R + 30000000000" q] by simp
    also have "60000000000 * q + (R + 30000000000) = sint d + 30000000000"
      using Dq by (simp add: D_def)
    finally show ?thesis .
  next
    case False
    have "q \<le> 153722866"
    proof (rule ccontr)
      assume "\<not> q \<le> 153722866"
      then have "153722867 \<le> q" by simp
      then have "60000000000 * 153722867 \<le> 60000000000 * q" by simp
      with Dq False D63 show False by simp
    qed
    then have "60000000000 * (q + 1) \<le> 60000000000 * 153722867" by simp
    then have DR: "0 \<le> D + 60000000000 - R" "D + 60000000000 - R < 2 ^ 63"
      using Dq q0 R by simp_all
    have d1: "d + Minute - word_of_int R = word_of_int (D + 60000000000 - R)"
      by (simp add: d Minute_def)
    have "sint (d + Minute - word_of_int R) = D + 60000000000 - R"
      by (simp only: d1 uint_small [OF DR])
    then have "sint d < sint (d + Minute - word_of_int R)"
      using R by (simp add: D_def [symmetric])
    then have "Round d Minute = d + Minute - word_of_int R"
      using assms False by (simp add: Round_def m r lth)
    then have "uint (Round d Minute div Minute) = (D + 60000000000 - R) div 60000000000"
      by (simp only: d1 uint_div m uint_small [OF DR])
    also have "D + 60000000000 - R = 60000000000 * (q + 1) + 0" using Dq by simp
    also have "(60000000000 * (q + 1) + 0) div 60000000000 = q + 1" by simp
    also have "q + 1 = (60000000000 * (q + 1) + (R - 30000000000)) div 60000000000"
      using R False div_minute [of "R - 30000000000" "q + 1"] by simp
    also have "60000000000 * (q + 1) + (R - 30000000000) = sint d + 30000000000"
      using Dq by (simp add: D_def)
    finally show ?thesis .
  qed
qed


lemma decimal_digits: "set (decimal n) \<subseteq> set ''0123456789''"
proof (induction n rule: decimal.induct)
  case (1 n)
  show ?case
  proof (cases "n < 10")
    case True
    then have "n \<in> {0, 1, 2, 3, 4, 5, 6, 7, 8, 9}" by auto
    then show ?thesis
      by (subst decimal.simps) auto
  next
    case False
    have "n mod 10 \<in> {0, 1, 2, 3, 4, 5, 6, 7, 8, 9}"
      using mod_less_divisor [of 10 n] by (auto simp del: mod_less_divisor)
    with False 1 show ?thesis
      by (subst decimal.simps) auto
  qed
qed

lemma decimal_no_h: "CHR ''h'' \<notin> set (decimal n)"
  using decimal_digits [of n] by auto

lemma decimal_0: "decimal 0 = [CHR 0x30]"
  by (subst decimal.simps) simp

lemma decimal_1: "decimal (Suc 0) = [CHR 0x31]"
  by (subst decimal.simps) simp

lemmas decimal_eval = decimal.simps [of "numeral k" for k] decimal_0 decimal_1

lemma formatDuration_nonneg:
  assumes "0 \<le> sint d"
  shows "formatDuration d =
    (let mins = nat ((sint d + 30000000000) div 60000000000)
     in if mins < 60 then decimal mins @ ''m''
        else decimal (mins div 60) @ ''h'' @ decimal (mins mod 60) @ ''m'')"
proof -
  define u where "u = Round d Minute div Minute"
  define M where "M = (sint d + 30000000000) div 60000000000"
  have u: "uint u = M"
    unfolding u_def M_def by (rule Round_Minute_nonneg [OF assms])
  have M0: "0 \<le> M" using assms by (simp add: M_def pos_imp_zdiv_nonneg_iff)
  have un: "unat u = nat M" using u by (simp add: unat_eq_nat_uint)
  have lt: "(u < 60) = (nat M < 60)" by (simp add: word_less_nat_alt un)
  have "unat (u div 60) = nat M div 60" "unat (u mod 60) = nat M mod 60"
    by (simp_all add: unat_div unat_mod un)
  then show ?thesis
    by (simp add: formatDuration_def Let_def u_def [symmetric] M_def [symmetric] fmt_u_def un lt)
qed

text \<open>
  Claim C7, for the durations that are not negative. \<open>formatDuration\<close> shows the
  duration in minutes, rounded to the nearest minute (a half up): as \<open>Xm\<close> below 60
  minutes, as \<open>XhYm\<close> from 60 minutes on, the hours not reduced to days and nothing
  padded. The letter \<open>h\<close> is in the result exactly from 60 minutes on, the minutes
  counted grow with the duration, and 89 minutes 30 seconds give \<open>1h30m\<close>.
\<close>

theorem C7_formatDuration_nonneg:
  "(0 \<le> sint d \<longrightarrow>
      formatDuration d =
        (let mins = nat ((sint d + 30000000000) div 60000000000)
         in if mins < 60 then decimal mins @ ''m''
            else decimal (mins div 60) @ ''h'' @ decimal (mins mod 60) @ ''m'')) \<and>
   (0 \<le> sint d \<longrightarrow>
      (CHR ''h'' \<in> set (formatDuration d)) = (60 \<le> (sint d + 30000000000) div 60000000000)) \<and>
   (0 \<le> sint d \<and> sint d \<le> sint d' \<longrightarrow>
      Round d Minute div Minute \<le> Round d' Minute div Minute) \<and>
   formatDuration 5370000000000 = ''1h30m''"
proof -
  have 1: "0 \<le> sint d \<longrightarrow>
      formatDuration d =
        (let mins = nat ((sint d + 30000000000) div 60000000000)
         in if mins < 60 then decimal mins @ ''m''
            else decimal (mins div 60) @ ''h'' @ decimal (mins mod 60) @ ''m'')"
    using formatDuration_nonneg [of d] by blast
  have 2: "0 \<le> sint d \<longrightarrow>
      (CHR ''h'' \<in> set (formatDuration d)) = (60 \<le> (sint d + 30000000000) div 60000000000)"
  proof
    assume d: "0 \<le> sint d"
    then have "0 \<le> (sint d + 30000000000) div 60000000000"
      by (simp add: pos_imp_zdiv_nonneg_iff)
    then show "(CHR ''h'' \<in> set (formatDuration d)) = (60 \<le> (sint d + 30000000000) div 60000000000)"
      by (auto simp: formatDuration_nonneg [OF d] Let_def decimal_no_h)
  qed
  have 3: "0 \<le> sint d \<and> sint d \<le> sint d' \<longrightarrow>
      Round d Minute div Minute \<le> Round d' Minute div Minute"
  proof
    assume a: "0 \<le> sint d \<and> sint d \<le> sint d'"
    then have "(sint d + 30000000000) div 60000000000 \<le> (sint d' + 30000000000) div 60000000000"
      by (intro zdiv_mono1) simp_all
    then show "Round d Minute div Minute \<le> Round d' Minute div Minute"
      using a by (simp add: word_le_def Round_Minute_nonneg)
  qed
  have s: "sint (5370000000000 :: Duration) = 5370000000000" by simp
  have 4: "formatDuration 5370000000000 = ''1h30m''"
    by (subst formatDuration_nonneg) (simp_all add: decimal_eval)
  from 1 2 3 4 show ?thesis by (intro conjI)
qed

theorem C7_formatDuration_nonneg_witness:
  "formatDuration 5400000000000 = ''1h30m'' \<and>
   formatDuration 3570000000000 = ''1h0m'' \<and>
   formatDuration 3569999999999 = ''59m'' \<and>
   CHR ''h'' \<in> set (formatDuration 5400000000000) \<and>
   CHR ''h'' \<notin> set (formatDuration 3569999999999) \<and>
   Round 3569999999999 Minute div Minute \<le> Round 5400000000000 Minute div Minute"
  using C7_formatDuration_nonneg [of 5400000000000 5400000000000]
    C7_formatDuration_nonneg [of 3570000000000 5400000000000]
    C7_formatDuration_nonneg [of 3569999999999 5400000000000]
  by (simp add: decimal_eval)

text \<open>
  The claim as stated fails on a negative duration: minus one minute rounds to a value
  under 60 minutes, and the conversion to \<open>uint64\<close> makes millions of hours of it.
\<close>

theorem C7_negative_duration_counterexample:
  "sint (- 60000000000 :: Duration) = - 60000000000 \<and>
   formatDuration (- 60000000000) = ''5124095h33m''"
proof -
  have r: "go_rem (- 60000000000) Minute = 0"
    by (simp add: go_rem_def Minute_def signed_modulo_int_def)
  have "Round (- 60000000000) Minute = - 60000000000"
    by (simp add: Round_def r lessThanHalf_def) (simp add: Minute_def)
  then show ?thesis
    by (simp add: formatDuration_def Minute_def fmt_u_def decimal_eval)
qed

section \<open>Repeated updates\<close>

lemma Atoi_0: "Atoi ''0'' = Some 0"
  by (simp add: Atoi_def is_digit_def dec_val_def digit_val_def Let_def)

lemma Update_charger_power_eval:
  "Atoi v = Some i \<Longrightarrow>
   Update pf now ''charger_power'' v car = car\<lparr>carState := (carState car)\<lparr>at' := now, chargerPower := i\<rparr>\<rparr>"
  using Update_charger_power [of "''charger_power''" v i pf now car] by simp

lemma Update_shift_state_eval:
  "Update pf now ''shift_state'' v car = car\<lparr>carState := (carState car)\<lparr>at' := now, shiftState := v\<rparr>\<rparr>"
  using Update_shift_state [of "''shift_state''" pf now v car] by simp

text \<open>
  Claim C9 on a run of one car, from its discovery. The charger power 7 starts a
  charging session; then the shift state D and the charger power 0 arrive before the
  next evaluation, which ends the session with an empty message (the battery level has
  not changed) and leaves the \<open>select\<close> statement by \<open>break\<close>, before the
  driving part. The charger power 0 arrives again: the snapshot is the same but for its
  timestamp, and this evaluation logs the start of a drive.
\<close>

theorem C9_repeated_update_starts_drive:
  "(let pf = (\<lambda>s. None);
        lk = (\<lambda>la lo. None);
        c1 = fst (evaluate lk (Update pf \<lparr>nanos = 1, zoneOffset = 0\<rparr> ''charger_power'' ''7'' zeroCar));
        c2 = Update pf \<lparr>nanos = 3, zoneOffset = 0\<rparr> ''charger_power'' ''0''
               (Update pf \<lparr>nanos = 2, zoneOffset = 0\<rparr> ''shift_state'' ''D'' c1);
        c3 = fst (evaluate lk c2);
        c4 = Update pf \<lparr>nanos = 4, zoneOffset = 0\<rparr> ''charger_power'' ''0'' c3
    in snd (evaluate lk c2) = [LogStateUpdate (carState c2), LogFinishedCharging (carState c2)] \<and>
       carState c4 = (carState c2)\<lparr>at' := \<lparr>nanos = 4, zoneOffset = 0\<rparr>\<rparr> \<and>
       snd (evaluate lk c4) = [LogStateUpdate (carState c4), LogStartedDriving (carState c4)])"
  by (simp add: Let_def Update_charger_power_eval Update_shift_state_eval Atoi_7 Atoi_0
      evaluate_def chargingPart_def drivingPart_def driveShiftState_def finishChargingMessage_def
      zeroCar_def zeroCarState_def)

section \<open>Properties of floating point\<close>

lemma pow2_pos: "0 < pow2 k"
  by (simp add: pow2_def)

lemma round_even_nonneg: "0 \<le> x \<Longrightarrow> 0 \<le> round_even x"
  by (auto simp: round_even_def Let_def)

lemma round_even_int: "round_even (of_int n) = n"
  by (simp add: round_even_def Let_def)

lemma rnd_nonzero:
  assumes "x \<noteq> 0" "q = pow2 (max (ilog2 \<bar>x\<bar>) (emin b) - prec b + 1)" "m = round_even (\<bar>x\<bar> / q)"
  shows "rnd b x =
    (if pow2 (emax b + 1) \<le> of_int m * q then finf (x < 0)
     else if m = 0 then fzero (x < 0)
     else Fin (if x < 0 then - (of_int m * q) else of_int m * q))"
  using assms(1) unfolding assms(2,3) by (simp add: rnd_def Let_def finf_def fzero_def)

lemma rnd_cases:
  obtains (zero) "x = 0" "rnd b x = Fin 0"
  | (inf) "x \<noteq> 0" "rnd b x = finf (x < 0)"
  | (underflow) "x \<noteq> 0" "rnd b x = fzero (x < 0)"
  | (fin) y where "x \<noteq> 0" "0 < y" "rnd b x = Fin (if x < 0 then - y else y)"
proof (cases "x = 0")
  case True
  then show ?thesis using zero by (simp add: rnd_def)
next
  case False
  define q where "q = pow2 (max (ilog2 \<bar>x\<bar>) (emin b) - prec b + 1)"
  define m where "m = round_even (\<bar>x\<bar> / q)"
  have q: "0 < q" by (simp add: q_def pow2_pos)
  then have m: "0 \<le> m" unfolding m_def by (intro round_even_nonneg) simp
  note r = rnd_nonzero [OF False q_def m_def]
  show ?thesis
  proof (cases "pow2 (emax b + 1) \<le> of_int m * q")
    case True
    then show ?thesis using inf False r by simp
  next
    case nov: False
    show ?thesis
    proof (cases "m = 0")
      case True
      then show ?thesis using underflow False r nov by simp
    next
      case mnz: False
      with m have "0 < m" by simp
      then have "0 < of_int m * q" using q by simp
      then show ?thesis using fin [of "of_int m * q"] False r nov mnz by simp
    qed
  qed
qed

lemma rnd_negative:
  assumes "x < 0" "0 < c"
  shows "flt (rnd b x) (Fin c)"
  using assms by (rule_tac x = x and b = b in rnd_cases) (auto simp: finf_def fzero_def)

lemma rnd_representable:
  assumes "representable b r"
  shows "rnd b r = Fin r"
proof (cases "r = 0")
  case True
  then show ?thesis by (simp add: rnd_def)
next
  case False
  define q where "q = pow2 (max (ilog2 \<bar>r\<bar>) (emin b) - prec b + 1)"
  define m where "m = round_even (\<bar>r\<bar> / q)"
  have q: "0 < q" by (simp add: q_def pow2_pos)
  from assms False have i: "of_int \<lfloor>\<bar>r\<bar> / q\<rfloor> = \<bar>r\<bar> / q" and ov: "\<bar>r\<bar> < pow2 (emax b + 1)"
    by (simp_all add: representable_def Let_def q_def)
  have "m = \<lfloor>\<bar>r\<bar> / q\<rfloor>"
    unfolding m_def using round_even_int [of "\<lfloor>\<bar>r\<bar> / q\<rfloor>"] by (simp only: i)
  then have y: "of_int m * q = \<bar>r\<bar>"
    using q by (simp add: i)
  have "m \<noteq> 0"
  proof
    assume "m = 0"
    with y have "\<bar>r\<bar> = 0" by simp
    with False show False by simp
  qed
  with rnd_nonzero [OF False q_def m_def] ov show ?thesis
    by (simp only: y) simp
qed


lemmas bitlen_eval = compute_bitlen [of "numeral k" for k] compute_bitlen [of 1]

lemmas rnd_eval = rnd_def ilog2_def pow2_def round_even_def Let_def bitlen_eval

lemmas fop_eval = fadd_def fsub_def fmul_def fdiv_def is_nan_def is_inf_def is_zero_def
  fzero_def finf_def

lemma KMPerMile32: "const32 KMPerMile = Fin (13505659 / 8388608)"
  by (simp add: const32_def KMPerMile_def rnd_eval)

lemma RatedKMPerKwh32: "const32 RatedKMPerKwh = Fin (15665725 / 2097152)"
  by (simp add: const32_def RatedKMPerKwh_def rnd_eval)

lemma tenth32: "const32 0.1 = Fin (13421773 / 134217728)"
  by (simp add: const32_def rnd_eval)

lemma thousand32: "const32 1000 = Fin 1000"
  by (simp add: const32_def rnd_eval)

lemma example_range: "fsub B32 (Fin 400) (Fin 390) = Fin 10"
  by (simp add: fop_eval rnd_eval)

lemma example_odometer: "fsub B32 (Fin 986) (Fin 976) = Fin 10"
  by (simp add: fop_eval rnd_eval)

lemma example_kwh: "fdiv B32 (Fin 10) (Fin (15665725 / 2097152)) = Fin (5614865 / 4194304)"
  by (simp add: fop_eval rnd_eval)

lemma example_wh: "fmul B32 (Fin (5614865 / 4194304)) (Fin 1000) = Fin (10966533 / 8192)"
  by (simp add: fop_eval rnd_eval)

lemma example_wh_per_km: "fdiv B32 (Fin (10966533 / 8192)) (Fin 10) = Fin (4386613 / 32768)"
  by (simp add: fop_eval rnd_eval)

lemma example_wh_per_mile:
  "fmul B32 (Fin (4386613 / 32768)) (Fin (13505659 / 8388608)) = Fin (7062447 / 32768)"
  by (simp add: fop_eval rnd_eval)

lemma example_distance: "fdiv B32 (Fin 10) (Fin (13505659 / 8388608)) = Fin (13025789 / 2097152)"
  by (simp add: fop_eval rnd_eval)

lemma example_efficiency:
  "efficiency (zeroCarState\<lparr>odometer := Fin 976, ratedBatteryRangeKm := Fin 400\<rparr>)
     (zeroCarState\<lparr>odometer := Fin 986, ratedBatteryRangeKm := Fin 390\<rparr>) = Fin (7062447 / 32768)"
  by (simp add: efficiency_def KMPerMile32 RatedKMPerKwh32 thousand32 example_range
      example_odometer example_kwh example_wh example_wh_per_km example_wh_per_mile)

lemma example_216: "fmt_f 0 (Fin (7062447 / 32768)) = ''216''"
  by (simp add: round_even_def Let_def decimal_eval)


section \<open>Properties of the driving message\<close>

lemma finishDriveMessage_empty_iff:
  "(finishDriveMessage lk start end = '''') =
   flt (fdiv B32 (fsub B32 (odometer end) (odometer start)) (const32 KMPerMile)) (const32 0.1)"
  by (simp add: finishDriveMessage_def Let_def glyph_car_def)

lemma flt_zero_cases: "flt x (Fin 0) = (x = NegInf \<or> (\<exists>r<0. x = Fin r))"
  by (cases x) auto

lemma negative_distance:
  assumes "flt x (Fin 0)"
  shows "flt (fdiv B32 x (const32 KMPerMile)) (const32 0.1)"
proof -
  from assms consider "x = NegInf" | r where "r < 0" "x = Fin r"
    by (auto simp: flt_zero_cases)
  then show ?thesis
  proof cases
    case 1
    then show ?thesis by (simp add: KMPerMile32 tenth32 fop_eval)
  next
    case 2
    then have "fdiv B32 x (const32 KMPerMile) = rnd B32 (r / (13505659 / 8388608))"
      by (simp add: KMPerMile32 fop_eval)
    moreover have "r / (13505659 / 8388608) < 0" using 2 by simp
    ultimately show ?thesis
      using rnd_negative [of "r / (13505659 / 8388608)" "13421773 / 134217728" B32]
      by (simp add: tenth32)
  qed
qed

text \<open>
  Claim C3. The driving message is empty exactly when the distance, computed in
  \<open>float32\<close> as the odometer difference divided by \<open>KMPerMile\<close> = 1.61, is less
  than 0.1, the comparison being the one of \<open>float32\<close>; a negative odometer
  difference always gives the empty message.
\<close>

theorem C3_finishDriveMessage_empty:
  "(finishDriveMessage lk start end = '''') =
     flt (fdiv B32 (fsub B32 (odometer end) (odometer start)) (const32 KMPerMile)) (const32 0.1) \<and>
   KMPerMile = 1.61 \<and>
   (flt (fsub B32 (odometer end) (odometer start)) (Fin 0) \<longrightarrow>
      finishDriveMessage lk start end = '''')"
  using negative_distance [of "fsub B32 (odometer end) (odometer start)"]
  by (simp add: finishDriveMessage_empty_iff KMPerMile_def)

lemma example_backwards: "fsub B32 (Fin 976) (Fin 986) = Fin (- 10)"
  by (simp add: fop_eval rnd_eval)

theorem C3_finishDriveMessage_empty_witness:
  "flt (fsub B32 (odometer (zeroCarState\<lparr>odometer := Fin 976\<rparr>))
          (odometer (zeroCarState\<lparr>odometer := Fin 986\<rparr>))) (Fin 0) \<and>
   finishDriveMessage (\<lambda>la lo. None) (zeroCarState\<lparr>odometer := Fin 986\<rparr>)
     (zeroCarState\<lparr>odometer := Fin 976\<rparr>) = ''''"
  using C3_finishDriveMessage_empty [of "\<lambda>la lo. None" "zeroCarState\<lparr>odometer := Fin 986\<rparr>"
      "zeroCarState\<lparr>odometer := Fin 976\<rparr>"]
  by (simp add: example_backwards)

lemma finishDriveMessage_efficiency:
  assumes "finishDriveMessage lk start end \<noteq> ''''"
  shows "\<exists>pre. finishDriveMessage lk start end =
     pre @ '' miles @ '' @ fmt_f 0 (efficiency start end) @ ''Wh/mi)''"
proof -
  have far: "\<not> flt (fdiv B32 (fsub B32 (odometer end) (odometer start)) (const32 KMPerMile))
      (const32 0.1)"
    using assms by (simp add: finishDriveMessage_empty_iff)
  show ?thesis
    unfolding finishDriveMessage_def Let_def
    apply (simp only: far if_False)
    apply (simp only: append_assoc [symmetric])
    apply (simp only: append_assoc [of _ "'' miles @ ''"]
        append_assoc [of _ "fmt_f 0 (efficiency start end)"])
    apply (rule exI)
    apply (rule refl)
    done
qed

lemma fmt_f_0_no_point: "CHR ''.'' \<notin> set (fmt_f 0 x)"
  using decimal_digits [of "nat (round_even \<bar>valof x\<bar>)"]
  by (cases x) (auto simp: Let_def)

text \<open>
  Claim C4. The efficiency is computed in \<open>float32\<close> as written in the claim, with
  \<open>RatedKMPerKwh\<close> = 7.47 and \<open>KMPerMile\<close> = 1.61, each operation rounded; a
  driving message ends with it, printed by \<open>%.0f\<close>, which has no decimal point. For
  the odometer 976 to 986 and the rated range 400 to 390 it is printed as 216.
\<close>

theorem C4_efficiency:
  "efficiency start end =
     fmul B32
       (fdiv B32
          (fmul B32
             (fdiv B32 (fsub B32 (ratedBatteryRangeKm start) (ratedBatteryRangeKm end))
                (const32 RatedKMPerKwh))
             (const32 1000))
          (fsub B32 (odometer end) (odometer start)))
       (const32 KMPerMile) \<and>
   RatedKMPerKwh = 7.47 \<and> KMPerMile = 1.61 \<and>
   (finishDriveMessage lk start end \<noteq> '''' \<longrightarrow>
      (\<exists>pre. finishDriveMessage lk start end =
         pre @ '' miles @ '' @ fmt_f 0 (efficiency start end) @ ''Wh/mi)'')) \<and>
   CHR ''.'' \<notin> set (fmt_f 0 (efficiency start end)) \<and>
   fmt_f 0 (efficiency (zeroCarState\<lparr>odometer := Fin 976, ratedBatteryRangeKm := Fin 400\<rparr>)
     (zeroCarState\<lparr>odometer := Fin 986, ratedBatteryRangeKm := Fin 390\<rparr>)) = ''216''"
proof (intro conjI impI)
  show "efficiency start end =
     fmul B32
       (fdiv B32
          (fmul B32
             (fdiv B32 (fsub B32 (ratedBatteryRangeKm start) (ratedBatteryRangeKm end))
                (const32 RatedKMPerKwh))
             (const32 1000))
          (fsub B32 (odometer end) (odometer start)))
       (const32 KMPerMile)"
    by (simp add: efficiency_def Let_def)
  show "RatedKMPerKwh = 7.47" by (simp add: RatedKMPerKwh_def)
  show "KMPerMile = 1.61" by (simp add: KMPerMile_def)
  show "\<exists>pre. finishDriveMessage lk start end =
         pre @ '' miles @ '' @ fmt_f 0 (efficiency start end) @ ''Wh/mi)''"
    if "finishDriveMessage lk start end \<noteq> ''''"
    using that by (rule finishDriveMessage_efficiency)
  show "CHR ''.'' \<notin> set (fmt_f 0 (efficiency start end))"
    by (rule fmt_f_0_no_point)
  show "fmt_f 0 (efficiency (zeroCarState\<lparr>odometer := Fin 976, ratedBatteryRangeKm := Fin 400\<rparr>)
     (zeroCarState\<lparr>odometer := Fin 986, ratedBatteryRangeKm := Fin 390\<rparr>)) = ''216''"
    by (simp only: example_efficiency example_216)
qed

lemma example_not_suppressed:
  "finishDriveMessage lk (zeroCarState\<lparr>odometer := Fin 976, ratedBatteryRangeKm := Fin 400\<rparr>)
     (zeroCarState\<lparr>odometer := Fin 986, ratedBatteryRangeKm := Fin 390\<rparr>) \<noteq> ''''"
  by (simp add: finishDriveMessage_empty_iff example_odometer KMPerMile32 tenth32 example_distance)

theorem C4_efficiency_witness:
  "finishDriveMessage (\<lambda>la lo. None)
     (zeroCarState\<lparr>odometer := Fin 976, ratedBatteryRangeKm := Fin 400\<rparr>)
     (zeroCarState\<lparr>odometer := Fin 986, ratedBatteryRangeKm := Fin 390\<rparr>) \<noteq> '''' \<and>
   (\<exists>pre. finishDriveMessage (\<lambda>la lo. None)
     (zeroCarState\<lparr>odometer := Fin 976, ratedBatteryRangeKm := Fin 400\<rparr>)
     (zeroCarState\<lparr>odometer := Fin 986, ratedBatteryRangeKm := Fin 390\<rparr>) =
      pre @ '' miles @ 216Wh/mi)'')"
  using C4_efficiency [of "zeroCarState\<lparr>odometer := Fin 976, ratedBatteryRangeKm := Fin 400\<rparr>"
      "zeroCarState\<lparr>odometer := Fin 986, ratedBatteryRangeKm := Fin 390\<rparr>" "\<lambda>la lo. None"]
    example_not_suppressed [of "\<lambda>la lo. None"]
  by (simp only: example_efficiency example_216) simp


section \<open>Properties of the charging message\<close>

lemma fsub_zero:
  assumes "is_zero y" "is_float B32 x" "\<not> is_nan x"
  shows "feq (fsub B32 x y) x"
proof (cases x)
  case (Fin r)
  show ?thesis
  proof (cases "r = 0")
    case True
    with Fin assms(1) show ?thesis by (auto simp: fop_eval)
  next
    case False
    have "fsub B32 x y = rnd B32 r"
      using Fin False assms(1) by (auto simp: fop_eval)
    also have "\<dots> = Fin r"
      using assms(2) Fin by (simp add: rnd_representable)
    finally show ?thesis using Fin by simp
  qed
next
  case NegZero
  with assms(1) show ?thesis by (auto simp: fop_eval)
next
  case PosInf
  with assms(1) show ?thesis by (auto simp: fop_eval)
next
  case NegInf
  with assms(1) show ?thesis by (auto simp: fop_eval)
next
  case NaN
  with assms(3) show ?thesis by (simp add: is_nan_def)
qed

lemma fsub_finite:
  assumes "b \<noteq> 0"
  shows "fsub B32 (Fin e) (Fin b) = rnd B32 (e - b)"
  using assms by (simp add: fop_eval)

lemma finishChargingMessage_empty_iff:
  "(finishChargingMessage lk start end peak = '''') = (batteryLevel end = batteryLevel start)"
  by (simp add: finishChargingMessage_def Let_def glyph_plug_def)

lemma finishChargingMessage_energy:
  assumes "finishChargingMessage lk start end peak \<noteq> ''''"
  shows "\<exists>pre post. finishChargingMessage lk start end peak =
     pre @ '' + '' @ fmt_f 1 (chargeEnergyAdded end) @ ''kWh'' @ newline @ ''Average Power: '' @
     fmt_f 2 (fdiv B64 (fsub B32 (chargeEnergyAdded end) (chargeEnergyAdded start))
                (Hours (Sub (at' end) (at' start)))) @ ''kW (Peak '' @ post"
proof -
  have b: "batteryLevel end - batteryLevel start \<noteq> 0"
    using assms by (simp add: finishChargingMessage_empty_iff)
  show ?thesis
    unfolding finishChargingMessage_def Let_def
    apply (simp only: b if_False)
    apply (rule exI [where x = "glyph_plug @ '' Charging finished at '' @ placeName lk start @ ''.'' @ newline @
                glyph_clock @ '' '' @ Format1504 (at' start) @ glyph_arrow @ Format1504 (at' end) @
                  '' ('' @ formatDuration (Sub (at' end) (at' start)) @ '')'' @ newline @
                glyph_battery @ '' '' @ fmt_d (batteryLevel start) @ glyph_arrow @
                  fmt_d (batteryLevel end) @ ''% (+ '' @ fmt_d (batteryLevel end - batteryLevel start) @ ''%)'' @ newline @
                glyph_car @ '' '' @ fmt_f 0 (fdiv B32 (ratedBatteryRangeKm start) (const32 KMPerMile)) @
                  glyph_arrow @ fmt_f 0 (fdiv B32 (ratedBatteryRangeKm end) (const32 KMPerMile)) @
                  '' miles (+ '' @ fmt_f 1 (fdiv B32 (fsub B32 (ratedBatteryRangeKm end) (ratedBatteryRangeKm start))
                                (const32 KMPerMile)) @ '' miles).'' @ newline @
                glyph_bolt"])
    apply (rule exI [where x = "fmt_d (chargerPower peak) @ ''kW at '' @ fmt_d (batteryLevel peak) @ ''%)''"])
    apply (simp only: append_assoc)
    done
qed

text \<open>
  Claim C10, as the code has it. A charging message prints the energy added at the end
  of the session, not the difference, and computes the average power from the
  difference, taken in \<open>float32\<close>, over the hours of the session. The difference is
  equal to the printed energy whenever the energy added at the start is zero and the one
  at the end is a number. When the energy at the start is not zero the exact difference
  is not the energy at the end, and the \<open>float32\<close> difference is its rounding.
\<close>

theorem C10_energy_figure:
  "(finishChargingMessage lk start end peak \<noteq> '''' \<longrightarrow>
      (\<exists>pre post. finishChargingMessage lk start end peak =
         pre @ '' + '' @ fmt_f 1 (chargeEnergyAdded end) @ ''kWh'' @ newline @ ''Average Power: '' @
         fmt_f 2 (fdiv B64 (fsub B32 (chargeEnergyAdded end) (chargeEnergyAdded start))
                    (Hours (Sub (at' end) (at' start)))) @ ''kW (Peak '' @ post)) \<and>
   (is_zero (chargeEnergyAdded start) \<and> is_float B32 (chargeEnergyAdded end) \<and>
    \<not> is_nan (chargeEnergyAdded end) \<longrightarrow>
      feq (fsub B32 (chargeEnergyAdded end) (chargeEnergyAdded start)) (chargeEnergyAdded end)) \<and>
   (chargeEnergyAdded start = Fin b \<and> b \<noteq> 0 \<and> chargeEnergyAdded end = Fin e \<longrightarrow>
      fsub B32 (chargeEnergyAdded end) (chargeEnergyAdded start) = rnd B32 (e - b) \<and> e - b \<noteq> e)"
proof (intro conjI impI)
  show "\<exists>pre post. finishChargingMessage lk start end peak =
         pre @ '' + '' @ fmt_f 1 (chargeEnergyAdded end) @ ''kWh'' @ newline @ ''Average Power: '' @
         fmt_f 2 (fdiv B64 (fsub B32 (chargeEnergyAdded end) (chargeEnergyAdded start))
                    (Hours (Sub (at' end) (at' start)))) @ ''kW (Peak '' @ post"
    if "finishChargingMessage lk start end peak \<noteq> ''''"
    using that by (rule finishChargingMessage_energy)
  show "feq (fsub B32 (chargeEnergyAdded end) (chargeEnergyAdded start)) (chargeEnergyAdded end)"
    if "is_zero (chargeEnergyAdded start) \<and> is_float B32 (chargeEnergyAdded end) \<and>
      \<not> is_nan (chargeEnergyAdded end)"
    using that by (intro fsub_zero) simp_all
  show "fsub B32 (chargeEnergyAdded end) (chargeEnergyAdded start) = rnd B32 (e - b)"
    if "chargeEnergyAdded start = Fin b \<and> b \<noteq> 0 \<and> chargeEnergyAdded end = Fin e"
    using that by (simp add: fsub_finite)
  show "e - b \<noteq> e"
    if "chargeEnergyAdded start = Fin b \<and> b \<noteq> 0 \<and> chargeEnergyAdded end = Fin e"
    using that by simp
qed

lemma millionth32: "const32 (1 / 1000000) = Fin (8796093 / 8796093022208)"
  by (simp add: const32_def rnd_eval)

lemma millionth32_float: "representable B32 (8796093 / 8796093022208)"
  by (simp add: representable_def ilog2_def pow2_def Let_def bitlen_eval)

lemma hundred32_float: "representable B32 100"
  by (simp add: representable_def ilog2_def pow2_def Let_def bitlen_eval)

lemma example_absorbed: "fsub B32 (Fin 100) (Fin (8796093 / 8796093022208)) = Fin 100"
  by (simp add: fop_eval rnd_eval)

lemma example_3_8: "const32 3.8 = Fin (15938355 / 4194304)"
  by (simp add: const32_def rnd_eval)

lemma example_3_8_float: "representable B32 (15938355 / 4194304)"
  by (simp add: representable_def ilog2_def pow2_def Let_def bitlen_eval)

text \<open>
  The claim as stated fails: with 0.000001 kWh at the start and 100 kWh at the end, both
  \<open>float32\<close> values, the energy at the start is not zero and the difference computed
  is equal to the energy at the end, which is printed as 100.0.
\<close>

theorem C10_absorbed_start_counterexample:
  "chargeEnergyAdded (zeroCarState\<lparr>chargeEnergyAdded := const32 (1 / 1000000)\<rparr>) =
     Fin (8796093 / 8796093022208) \<and>
   is_float B32 (chargeEnergyAdded (zeroCarState\<lparr>chargeEnergyAdded := const32 (1 / 1000000)\<rparr>)) \<and>
   is_float B32 (chargeEnergyAdded (zeroCarState\<lparr>chargeEnergyAdded := Fin 100\<rparr>)) \<and>
   fsub B32 (chargeEnergyAdded (zeroCarState\<lparr>chargeEnergyAdded := Fin 100\<rparr>))
     (chargeEnergyAdded (zeroCarState\<lparr>chargeEnergyAdded := const32 (1 / 1000000)\<rparr>)) =
     chargeEnergyAdded (zeroCarState\<lparr>chargeEnergyAdded := Fin 100\<rparr>) \<and>
   fmt_f 1 (chargeEnergyAdded (zeroCarState\<lparr>chargeEnergyAdded := Fin 100\<rparr>)) = ''100.0''"
  by (simp add: millionth32 millionth32_float hundred32_float example_absorbed round_even_def
      pad0_def decimal_eval)

theorem C10_energy_figure_witness:
  "finishChargingMessage (\<lambda>la lo. None) zeroCarState
     (zeroCarState\<lparr>chargeEnergyAdded := Fin (15938355 / 4194304), batteryLevel := 5\<rparr>)
     zeroCarState \<noteq> '''' \<and>
   feq (fsub B32 (Fin (15938355 / 4194304)) (Fin 0)) (Fin (15938355 / 4194304)) \<and>
   fsub B32 (Fin 100) (Fin (8796093 / 8796093022208)) = rnd B32 (100 - 8796093 / 8796093022208) \<and>
   (\<exists>pre post. finishChargingMessage (\<lambda>la lo. None) zeroCarState
     (zeroCarState\<lparr>chargeEnergyAdded := Fin (15938355 / 4194304), batteryLevel := 5\<rparr>)
     zeroCarState =
     pre @ '' + '' @ fmt_f 1 (Fin (15938355 / 4194304)) @ ''kWh'' @ newline @ ''Average Power: '' @
     fmt_f 2 (fdiv B64 (fsub B32 (Fin (15938355 / 4194304)) (Fin 0))
                (Hours (Sub zeroTime zeroTime))) @ ''kW (Peak '' @ post)"
proof -
  let ?end = "zeroCarState\<lparr>chargeEnergyAdded := Fin (15938355 / 4194304), batteryLevel := 5\<rparr>"
  have ne: "finishChargingMessage (\<lambda>la lo. None) zeroCarState ?end zeroCarState \<noteq> ''''"
    by (simp add: finishChargingMessage_def Let_def zeroCarState_def glyph_plug_def)
  have z: "is_zero (chargeEnergyAdded zeroCarState)"
    by (simp add: zeroCarState_def is_zero_def)
  have f: "is_float B32 (chargeEnergyAdded ?end)" "\<not> is_nan (chargeEnergyAdded ?end)"
    by (simp_all add: example_3_8_float is_nan_def)
  have s: "chargeEnergyAdded zeroCarState = Fin 0" "at' zeroCarState = zeroTime"
    by (simp_all add: zeroCarState_def)
  have e: "chargeEnergyAdded ?end = Fin (15938355 / 4194304)" "at' ?end = zeroTime"
    by (simp_all add: zeroCarState_def)
  from C10_energy_figure [of "\<lambda>la lo. None" zeroCarState ?end zeroCarState 1 1] ne z f
  have 1: "\<exists>pre post. finishChargingMessage (\<lambda>la lo. None) zeroCarState ?end zeroCarState =
     pre @ '' + '' @ fmt_f 1 (chargeEnergyAdded ?end) @ ''kWh'' @ newline @ ''Average Power: '' @
     fmt_f 2 (fdiv B64 (fsub B32 (chargeEnergyAdded ?end) (chargeEnergyAdded zeroCarState))
                (Hours (Sub (at' ?end) (at' zeroCarState)))) @ ''kW (Peak '' @ post"
    and 2: "feq (fsub B32 (chargeEnergyAdded ?end) (chargeEnergyAdded zeroCarState))
      (chargeEnergyAdded ?end)"
    by blast+
  have 3: "fsub B32 (Fin 100) (Fin (8796093 / 8796093022208)) =
      rnd B32 (100 - 8796093 / 8796093022208)"
    using C10_energy_figure [of "\<lambda>la lo. None"
        "zeroCarState\<lparr>chargeEnergyAdded := Fin (8796093 / 8796093022208)\<rparr>"
        "zeroCarState\<lparr>chargeEnergyAdded := Fin 100\<rparr>" zeroCarState
        "8796093 / 8796093022208" 100]
    by simp
  from ne 1 2 3 show ?thesis
    by (simp only: s e) simp
qed

end
